theory Spec2Isabelle
  imports Main "HOL-Library.Word" "HOL-Library.Sublist"
begin

unbundle bit_operations_syntax

section \<open>Guest memory (Core/WeaR_Memory.h, WeaR_Memory.cpp)\<close>

type_synonym u8 = "8 word"
type_synonym u16 = "16 word"
type_synonym u32 = "32 word"
type_synonym u64 = "64 word"

text \<open>\<^verbatim>\<open>PS4Memory::MEMORY_SIZE\<close>, \<^verbatim>\<open>Region::USER_BASE\<close>, \<^verbatim>\<open>Region::HEAP_BASE\<close>,
  \<^verbatim>\<open>Region::STACK_TOP\<close> and \<^verbatim>\<open>PHYSICAL_MASK\<close>.\<close>

definition MEMORY_SIZE :: u64 where
  "MEMORY_SIZE = 0x200000000"

definition USER_BASE :: u64 where
  "USER_BASE = 0x400000"

definition HEAP_BASE :: u64 where
  "HEAP_BASE = 0x200000000"

definition STACK_TOP :: u64 where
  "STACK_TOP = 0x00007FFFFFFFF000"

definition PHYSICAL_MASK :: u64 where
  "PHYSICAL_MASK = MEMORY_SIZE - 1"

text \<open>\<^verbatim>\<open>MemoryAccessException\<close>: its type, the physical address and the access size. The
  second constructor stands for any other \<^verbatim>\<open>std::exception\<close>.\<close>

datatype ExceptionType = OutOfBounds | MisalignedAccess | WriteProtected | InvalidAddress

datatype exn = MemoryAccessException ExceptionType u64 u64 | StdException

text \<open>The arena is a host byte array indexed by physical offset; \<^verbatim>\<open>m_memory\<close> is a null
  pointer (\<open>None\<close>) until the allocation succeeded.\<close>

record WeaR_Memory =
  m_memory :: "(u64 \<Rightarrow> u8) option"

definition translateAddress :: "u64 \<Rightarrow> u64" where
  "translateAddress virtualAddress =
     (if virtualAddress \<ge> USER_BASE
      then (virtualAddress - USER_BASE) AND PHYSICAL_MASK
      else virtualAddress AND PHYSICAL_MASK)"

text \<open>\<^verbatim>\<open>validateAccess\<close>: the sum \<^verbatim>\<open>physicalAddr + size\<close> is computed on 64-bit unsigned
  integers, so it wraps.\<close>

definition validateAccess :: "WeaR_Memory \<Rightarrow> u64 \<Rightarrow> u64 \<Rightarrow> exn + unit" where
  "validateAccess mem physicalAddr sz =
     (if m_memory mem = None
      then Inl (MemoryAccessException InvalidAddress physicalAddr sz)
      else if physicalAddr + sz > MEMORY_SIZE
      then Inl (MemoryAccessException OutOfBounds physicalAddr sz)
      else Inr ())"

definition isValidAddress :: "WeaR_Memory \<Rightarrow> u64 \<Rightarrow> u64 \<Rightarrow> bool" where
  "isValidAddress mem virtualAddress sz =
     (if m_memory mem = None then False
      else translateAddress virtualAddress + sz \<le> MEMORY_SIZE)"

text \<open>Byte-wise copies out of and into the arena (\<^verbatim>\<open>memcpy\<close>, and the typed accesses through
  \<^verbatim>\<open>reinterpret_cast\<close> on the little-endian host).\<close>

fun load_bytes :: "(u64 \<Rightarrow> u8) \<Rightarrow> u64 \<Rightarrow> nat \<Rightarrow> u8 list" where
  "load_bytes arena p 0 = []"
| "load_bytes arena p (Suc n) = arena p # load_bytes arena (p + 1) n"

fun store_bytes :: "(u64 \<Rightarrow> u8) \<Rightarrow> u64 \<Rightarrow> u8 list \<Rightarrow> (u64 \<Rightarrow> u8)" where
  "store_bytes arena p [] = arena"
| "store_bytes arena p (b # bs) = store_bytes (arena(p := b)) (p + 1) bs"

fun le_word :: "u8 list \<Rightarrow> 'a::len word" where
  "le_word [] = 0"
| "le_word (b # bs) = ucast b OR push_bit 8 (le_word bs)"

fun le_bytes :: "nat \<Rightarrow> 'a::len word \<Rightarrow> u8 list" where
  "le_bytes 0 v = []"
| "le_bytes (Suc n) v = ucast (v AND 0xFF) # le_bytes n (drop_bit 8 v)"

text \<open>\<^verbatim>\<open>read<T>\<close> and \<^verbatim>\<open>write<T>\<close> for a \<open>T\<close> of \<open>n\<close> bytes.\<close>

definition read_bytes :: "WeaR_Memory \<Rightarrow> u64 \<Rightarrow> nat \<Rightarrow> exn + u8 list" where
  "read_bytes mem virtualAddress n =
     (let physicalAddr = translateAddress virtualAddress in
      case validateAccess mem physicalAddr (of_nat n) of
        Inl e \<Rightarrow> Inl e
      | Inr _ \<Rightarrow>
          (case m_memory mem of
             None \<Rightarrow> Inl (MemoryAccessException InvalidAddress physicalAddr (of_nat n))
           | Some arena \<Rightarrow> Inr (load_bytes arena physicalAddr n)))"

definition write_bytes :: "WeaR_Memory \<Rightarrow> u64 \<Rightarrow> u8 list \<Rightarrow> exn + WeaR_Memory" where
  "write_bytes mem virtualAddress bs =
     (let physicalAddr = translateAddress virtualAddress in
      case validateAccess mem physicalAddr (of_nat (length bs)) of
        Inl e \<Rightarrow> Inl e
      | Inr _ \<Rightarrow>
          (case m_memory mem of
             None \<Rightarrow> Inl (MemoryAccessException InvalidAddress physicalAddr (of_nat (length bs)))
           | Some arena \<Rightarrow> Inr (mem\<lparr>m_memory := Some (store_bytes arena physicalAddr bs)\<rparr>)))"

definition read8 :: "WeaR_Memory \<Rightarrow> u64 \<Rightarrow> exn + u8" where
  "read8 mem a = map_sum id le_word (read_bytes mem a 1)"

definition read16 :: "WeaR_Memory \<Rightarrow> u64 \<Rightarrow> exn + u16" where
  "read16 mem a = map_sum id le_word (read_bytes mem a 2)"

definition read32 :: "WeaR_Memory \<Rightarrow> u64 \<Rightarrow> exn + u32" where
  "read32 mem a = map_sum id le_word (read_bytes mem a 4)"

definition read64 :: "WeaR_Memory \<Rightarrow> u64 \<Rightarrow> exn + u64" where
  "read64 mem a = map_sum id le_word (read_bytes mem a 8)"

definition write8 :: "WeaR_Memory \<Rightarrow> u64 \<Rightarrow> u8 \<Rightarrow> exn + WeaR_Memory" where
  "write8 mem a v = write_bytes mem a (le_bytes 1 v)"

definition write32 :: "WeaR_Memory \<Rightarrow> u64 \<Rightarrow> u32 \<Rightarrow> exn + WeaR_Memory" where
  "write32 mem a v = write_bytes mem a (le_bytes 4 v)"

definition write64 :: "WeaR_Memory \<Rightarrow> u64 \<Rightarrow> u64 \<Rightarrow> exn + WeaR_Memory" where
  "write64 mem a v = write_bytes mem a (le_bytes 8 v)"

text \<open>\<^verbatim>\<open>readBlock\<close> and \<^verbatim>\<open>writeBlock\<close>. The host buffer is \<open>None\<close> for a null pointer and
  otherwise the bytes it points to, at least \<open>size\<close> of them (a shorter buffer is undefined
  behaviour of \<^verbatim>\<open>memcpy\<close>, outside the model). \<open>readBlock\<close> returns the buffer after the
  call: its first \<open>size\<close> bytes are overwritten, the rest is kept.\<close>

definition readBlock :: "WeaR_Memory \<Rightarrow> u64 \<Rightarrow> u8 list option \<Rightarrow> u64 \<Rightarrow> exn + u8 list option" where
  "readBlock mem virtualAddress dest sz =
     (case dest of
        None \<Rightarrow> Inr None
      | Some buf \<Rightarrow>
          if sz = 0 then Inr (Some buf)
          else
            (let physicalAddr = translateAddress virtualAddress in
             case validateAccess mem physicalAddr sz of
               Inl e \<Rightarrow> Inl e
             | Inr _ \<Rightarrow>
                 (case m_memory mem of
                    None \<Rightarrow> Inl (MemoryAccessException InvalidAddress physicalAddr sz)
                  | Some arena \<Rightarrow>
                      Inr (Some (load_bytes arena physicalAddr (unat sz) @ drop (unat sz) buf)))))"

definition writeBlock :: "WeaR_Memory \<Rightarrow> u64 \<Rightarrow> u8 list option \<Rightarrow> u64 \<Rightarrow> exn + WeaR_Memory" where
  "writeBlock mem virtualAddress src sz =
     (case src of
        None \<Rightarrow> Inr mem
      | Some buf \<Rightarrow>
          if sz = 0 then Inr mem
          else
            (let physicalAddr = translateAddress virtualAddress in
             case validateAccess mem physicalAddr sz of
               Inl e \<Rightarrow> Inl e
             | Inr _ \<Rightarrow>
                 (case m_memory mem of
                    None \<Rightarrow> Inl (MemoryAccessException InvalidAddress physicalAddr sz)
                  | Some arena \<Rightarrow>
                      Inr (mem\<lparr>m_memory := Some (store_bytes arena physicalAddr (take (unat sz) buf))\<rparr>))))"

section \<open>Render command queue (Graphics/WeaR_RenderQueue.h, WeaR_RenderQueue.cpp)\<close>

text \<open>\<^verbatim>\<open>RenderCmdType\<close>; its first enumerator \<^verbatim>\<open>None\<close> is renamed, since \<open>None\<close> is taken.\<close>

datatype RenderCmdType =
  NoCmd | Clear | SetPipeline | BindVertexBuffer | BindIndexBuffer
  | Draw | DrawIndexed | DrawAuto | ComputeDispatch | EndFrame

text \<open>\<^verbatim>\<open>WeaR_DrawCmd\<close>, with its integer members. The floating-point clear colour and depth
  and the embedded pipeline state are never written by the command parser and are left out.\<close>

record WeaR_DrawCmd =
  cmd_type :: RenderCmdType
  vertexCount :: u32
  indexCount :: u32
  instanceCount :: u32
  firstVertex :: u32
  firstIndex :: u32
  firstInstance :: u32
  vertexOffset :: u32
  vertexBufferAddr :: u64
  indexBufferAddr :: u64
  vertexStride :: u32
  indexType :: u32
  groupCountX :: u32
  groupCountY :: u32
  groupCountZ :: u32
  clearStencil :: u32

text \<open>The member initialisers of \<^verbatim>\<open>WeaR_DrawCmd\<close>.\<close>

definition WeaR_DrawCmd_init :: WeaR_DrawCmd where
  "WeaR_DrawCmd_init =
     \<lparr>cmd_type = NoCmd, vertexCount = 0, indexCount = 0, instanceCount = 1, firstVertex = 0,
      firstIndex = 0, firstInstance = 0, vertexOffset = 0, vertexBufferAddr = 0,
      indexBufferAddr = 0, vertexStride = 0, indexType = 0, groupCountX = 0, groupCountY = 0,
      groupCountZ = 0, clearStencil = 0\<rparr>"

record WeaR_RenderQueue =
  m_queue :: "WeaR_DrawCmd list"
  m_totalPushed :: u64
  m_totalPopped :: u64
  m_frameCount :: u64

definition WeaR_RenderQueue_init :: WeaR_RenderQueue where
  "WeaR_RenderQueue_init = \<lparr>m_queue = [], m_totalPushed = 0, m_totalPopped = 0, m_frameCount = 0\<rparr>"

definition push :: "WeaR_DrawCmd \<Rightarrow> WeaR_RenderQueue \<Rightarrow> WeaR_RenderQueue" where
  "push cmd q = q\<lparr>m_queue := m_queue q @ [cmd], m_totalPushed := m_totalPushed q + 1\<rparr>"

definition push_many :: "WeaR_DrawCmd list \<Rightarrow> WeaR_RenderQueue \<Rightarrow> WeaR_RenderQueue" where
  "push_many cmds q =
     (if cmds = [] then q
      else q\<lparr>m_queue := m_queue q @ cmds,
             m_totalPushed := m_totalPushed q + of_nat (length cmds)\<rparr>)"

definition endFrame :: "WeaR_RenderQueue \<Rightarrow> WeaR_RenderQueue" where
  "endFrame q =
     (let q1 = push (WeaR_DrawCmd_init\<lparr>cmd_type := EndFrame\<rparr>) q
      in q1\<lparr>m_frameCount := m_frameCount q1 + 1\<rparr>)"

definition popAll :: "WeaR_RenderQueue \<Rightarrow> WeaR_DrawCmd list \<times> WeaR_RenderQueue" where
  "popAll q =
     (m_queue q, q\<lparr>m_queue := [], m_totalPopped := m_totalPopped q + of_nat (length (m_queue q))\<rparr>)"

definition isEmpty :: "WeaR_RenderQueue \<Rightarrow> bool" where
  "isEmpty q = (m_queue q = [])"

definition queue_size :: "WeaR_RenderQueue \<Rightarrow> nat" where
  "queue_size q = length (m_queue q)"

definition clear :: "WeaR_RenderQueue \<Rightarrow> WeaR_RenderQueue" where
  "clear q = q\<lparr>m_queue := []\<rparr>"

section \<open>PM4 packets and the GNM driver (HLE/Graphics/PM4_Packets.h, WeaR_GnmDriver.cpp)\<close>

definition pkt_type :: "u32 \<Rightarrow> u32" where
  "pkt_type raw = drop_bit 30 raw AND 0x3"

definition pkt_count :: "u32 \<Rightarrow> u16" where
  "pkt_count raw = ucast (drop_bit 16 raw AND 0x3FFF)"

definition pkt_opcode :: "u32 \<Rightarrow> u8" where
  "pkt_opcode raw = ucast (drop_bit 8 raw AND 0xFF)"

definition shaderType :: "u32 \<Rightarrow> u8" where
  "shaderType raw = ucast (raw AND 0xFF)"

definition isType3 :: "u32 \<Rightarrow> bool" where
  "isType3 raw = (pkt_type raw = 3)"

definition payloadSize :: "u32 \<Rightarrow> u32" where
  "payloadSize raw = ucast (pkt_count raw) + 1"

definition IT_NOP :: u8 where "IT_NOP = 0x10"
definition IT_INDIRECT_BUFFER :: u8 where "IT_INDIRECT_BUFFER = 0x3F"
definition IT_SET_SH_REG :: u8 where "IT_SET_SH_REG = 0x76"
definition IT_SET_CONTEXT_REG :: u8 where "IT_SET_CONTEXT_REG = 0x69"
definition IT_INDEX_TYPE :: u8 where "IT_INDEX_TYPE = 0x2A"
definition IT_DRAW_INDEX_2 :: u8 where "IT_DRAW_INDEX_2 = 0x27"
definition IT_DRAW_INDEX_AUTO :: u8 where "IT_DRAW_INDEX_AUTO = 0x2D"
definition IT_DISPATCH_DIRECT :: u8 where "IT_DISPATCH_DIRECT = 0x15"
definition IT_EVENT_WRITE :: u8 where "IT_EVENT_WRITE = 0x46"
definition IT_EVENT_WRITE_EOP :: u8 where "IT_EVENT_WRITE_EOP = 0x47"
definition IT_RELEASE_MEM :: u8 where "IT_RELEASE_MEM = 0x49"
definition IT_ACQUIRE_MEM :: u8 where "IT_ACQUIRE_MEM = 0x58"
definition IT_NUM_INSTANCES :: u8 where "IT_NUM_INSTANCES = 0x2F"

lemmas opcode_defs =
  IT_NOP_def IT_INDIRECT_BUFFER_def IT_SET_SH_REG_def IT_SET_CONTEXT_REG_def IT_INDEX_TYPE_def
  IT_DRAW_INDEX_2_def IT_DRAW_INDEX_AUTO_def IT_DISPATCH_DIRECT_def IT_EVENT_WRITE_def
  IT_EVENT_WRITE_EOP_def IT_RELEASE_MEM_def IT_ACQUIRE_MEM_def IT_NUM_INSTANCES_def

text \<open>\<^verbatim>\<open>buildHeader\<close>: the count argument is the number of payload words.\<close>

definition buildHeader :: "u8 \<Rightarrow> u16 \<Rightarrow> u8 \<Rightarrow> u32" where
  "buildHeader opcode count shType =
     push_bit 30 3 OR push_bit 16 (ucast count - 1) OR push_bit 8 (ucast opcode) OR ucast shType"

text \<open>\<^verbatim>\<open>GpuState\<close>: the tracked state, without its floating-point viewport. Members whose
  names \<^verbatim>\<open>WeaR_DrawCmd\<close> also has carry the prefix \<open>st_\<close>.\<close>

record GpuState =
  st_vertexBufferAddr :: "u64 list"
  st_vertexBufferStride :: "u32 list"
  st_indexBufferAddr :: u64
  st_indexBufferSize :: u32
  st_indexType :: u32
  colorTargetAddr :: "u64 list"
  colorTargetFormat :: "u32 list"
  depthTargetAddr :: u64
  vsShaderAddr :: u64
  psShaderAddr :: u64
  csShaderAddr :: u64
  primitiveType :: u32
  st_instanceCount :: u32

definition GpuState_reset :: GpuState where
  "GpuState_reset =
     \<lparr>st_vertexBufferAddr = replicate 16 0, st_vertexBufferStride = replicate 16 0,
      st_indexBufferAddr = 0, st_indexBufferSize = 0, st_indexType = 0,
      colorTargetAddr = replicate 8 0, colorTargetFormat = replicate 8 0, depthTargetAddr = 0,
      vsShaderAddr = 0, psShaderAddr = 0, csShaderAddr = 0, primitiveType = 4,
      st_instanceCount = 1\<rparr>"

text \<open>What the driver writes through \<^verbatim>\<open>log\<close>, one constructor per format string, with the
  formatted arguments.\<close>

datatype gnm_msg =
  MsgSubmitCommandBuffers u32
  | MsgBuffer u32 u64 u32
  | MsgNonType3 u32
  | MsgPacketOverflow u32
  | MsgPacket u8 u32
  | MsgUnhandledOpcode u8
  | MsgSetContextReg u32 u32
  | MsgSetShReg u32 u32
  | MsgDrawIndexAuto u32 u32
  | MsgDrawIndex2 u32 u64
  | MsgDispatchDirect u32 u32 u32
  | MsgIndirectBuffer u64 u32

text \<open>The driver together with the global render queue it pushes to. The legacy
  \<^verbatim>\<open>m_commandQueue\<close> and the render-engine pointer are not used by the parser.\<close>

record WeaR_GnmDriver =
  m_gpuState :: GpuState
  m_packetsProcessed :: u64
  m_drawCallsQueued :: u64
  m_verbose :: bool
  gnm_log :: "gnm_msg list"
  renderQueue :: WeaR_RenderQueue

definition WeaR_GnmDriver_init :: WeaR_GnmDriver where
  "WeaR_GnmDriver_init =
     \<lparr>m_gpuState = GpuState_reset, m_packetsProcessed = 0, m_drawCallsQueued = 0, m_verbose = True,
      gnm_log = [], renderQueue = WeaR_RenderQueue_init\<rparr>"

definition gnm_logmsg :: "gnm_msg \<Rightarrow> WeaR_GnmDriver \<Rightarrow> WeaR_GnmDriver" where
  "gnm_logmsg msg d = d\<lparr>gnm_log := gnm_log d @ [msg]\<rparr>"

definition gnm_verbose :: "gnm_msg \<Rightarrow> WeaR_GnmDriver \<Rightarrow> WeaR_GnmDriver" where
  "gnm_verbose msg d = (if m_verbose d then gnm_logmsg msg d else d)"

text \<open>The register loops of \<^verbatim>\<open>handleSetContextReg\<close> and \<^verbatim>\<open>handleSetShReg\<close> only log.\<close>

definition handleSetContextReg :: "u32 list \<Rightarrow> u32 \<Rightarrow> WeaR_GnmDriver \<Rightarrow> WeaR_GnmDriver" where
  "handleSetContextReg payload count d =
     (if count < 2 then d
      else
        (let regOffset = payload ! 0 AND 0xFFFF
         in fold (\<lambda>i. gnm_verbose (MsgSetContextReg (regOffset + (of_nat i - 1)) (payload ! i)))
              [1..<unat count] d))"

definition handleSetShReg :: "u32 list \<Rightarrow> u32 \<Rightarrow> WeaR_GnmDriver \<Rightarrow> WeaR_GnmDriver" where
  "handleSetShReg payload count d =
     (if count < 2 then d
      else
        (let regOffset = payload ! 0 AND 0xFFFF
         in fold (\<lambda>i. gnm_verbose (MsgSetShReg (regOffset + (of_nat i - 1)) (payload ! i)))
              [1..<unat count] d))"

definition handleDrawIndexAuto :: "u32 list \<Rightarrow> u32 \<Rightarrow> WeaR_GnmDriver \<Rightarrow> WeaR_GnmDriver" where
  "handleDrawIndexAuto payload count d =
     (if count < 2 then d
      else
        (let vertexCount = payload ! 0;
             cmd = WeaR_DrawCmd_init\<lparr>cmd_type := DrawAuto, vertexCount := vertexCount,
                                     instanceCount := st_instanceCount (m_gpuState d)\<rparr>;
             d1 = gnm_logmsg (MsgDrawIndexAuto vertexCount (st_instanceCount (m_gpuState d))) d
         in d1\<lparr>renderQueue := push cmd (renderQueue d1),
                m_drawCallsQueued := m_drawCallsQueued d1 + 1\<rparr>))"

definition handleDrawIndex2 :: "u32 list \<Rightarrow> u32 \<Rightarrow> WeaR_GnmDriver \<Rightarrow> WeaR_GnmDriver" where
  "handleDrawIndex2 payload count d =
     (if count < 4 then d
      else
        (let indexBufferAddr = ucast (payload ! 1) OR push_bit 32 (ucast (payload ! 2));
             indexCount = payload ! 3;
             d1 = d\<lparr>m_gpuState := (m_gpuState d)\<lparr>st_indexBufferAddr := indexBufferAddr\<rparr>\<rparr>;
             cmd = WeaR_DrawCmd_init\<lparr>cmd_type := DrawIndexed, indexCount := indexCount,
                                     indexBufferAddr := indexBufferAddr,
                                     instanceCount := st_instanceCount (m_gpuState d1),
                                     indexType := st_indexType (m_gpuState d1)\<rparr>;
             d2 = gnm_logmsg (MsgDrawIndex2 indexCount indexBufferAddr) d1
         in d2\<lparr>renderQueue := push cmd (renderQueue d2),
                m_drawCallsQueued := m_drawCallsQueued d2 + 1\<rparr>))"

definition handleDispatchDirect :: "u32 list \<Rightarrow> u32 \<Rightarrow> WeaR_GnmDriver \<Rightarrow> WeaR_GnmDriver" where
  "handleDispatchDirect payload count d =
     (if count < 4 then d
      else
        (let cmd = WeaR_DrawCmd_init\<lparr>cmd_type := ComputeDispatch, groupCountX := payload ! 0,
                                     groupCountY := payload ! 1, groupCountZ := payload ! 2\<rparr>;
             d1 = gnm_logmsg (MsgDispatchDirect (payload ! 0) (payload ! 1) (payload ! 2)) d
         in d1\<lparr>renderQueue := push cmd (renderQueue d1)\<rparr>))"

definition handleIndexType :: "u32 list \<Rightarrow> u32 \<Rightarrow> WeaR_GnmDriver \<Rightarrow> WeaR_GnmDriver" where
  "handleIndexType payload count d =
     (if count < 1 then d
      else d\<lparr>m_gpuState := (m_gpuState d)\<lparr>st_indexType := payload ! 0 AND 0x3\<rparr>\<rparr>)"

definition handleNumInstances :: "u32 list \<Rightarrow> u32 \<Rightarrow> WeaR_GnmDriver \<Rightarrow> WeaR_GnmDriver" where
  "handleNumInstances payload count d =
     (if count < 1 then d
      else d\<lparr>m_gpuState := (m_gpuState d)\<lparr>st_instanceCount := payload ! 0\<rparr>\<rparr>)"

text \<open>The branches of the opcode \<^verbatim>\<open>switch\<close> that do not recurse (every opcode but
  \<^verbatim>\<open>IT_INDIRECT_BUFFER\<close>); the handlers for NOP, the event writes and the two memory
  barriers have empty bodies.\<close>

definition dispatch_packet :: "u8 \<Rightarrow> u32 list \<Rightarrow> u32 \<Rightarrow> WeaR_GnmDriver \<Rightarrow> WeaR_GnmDriver" where
  "dispatch_packet opcode payload count d =
     (if opcode = IT_NOP then d
      else if opcode = IT_SET_CONTEXT_REG then handleSetContextReg payload count d
      else if opcode = IT_SET_SH_REG then handleSetShReg payload count d
      else if opcode = IT_DRAW_INDEX_AUTO then handleDrawIndexAuto payload count d
      else if opcode = IT_DRAW_INDEX_2 then handleDrawIndex2 payload count d
      else if opcode = IT_DISPATCH_DIRECT then handleDispatchDirect payload count d
      else if opcode = IT_EVENT_WRITE \<or> opcode = IT_EVENT_WRITE_EOP then d
      else if opcode = IT_ACQUIRE_MEM then d
      else if opcode = IT_RELEASE_MEM then d
      else if opcode = IT_INDEX_TYPE then handleIndexType payload count d
      else if opcode = IT_NUM_INSTANCES then handleNumInstances payload count d
      else gnm_verbose (MsgUnhandledOpcode opcode) d)"

text \<open>The payload loop: word \<open>i\<close> is read at \<^verbatim>\<open>bufferAddr + (offset + i) * 4\<close>, the product
  being taken on 32-bit unsigned integers. The first faulting read throws.\<close>

fun read_payload :: "WeaR_Memory \<Rightarrow> u64 \<Rightarrow> u32 \<Rightarrow> nat \<Rightarrow> nat \<Rightarrow> exn + u32 list" where
  "read_payload mem bufferAddr offset i 0 = Inr []"
| "read_payload mem bufferAddr offset i (Suc n) =
     (case read32 mem (bufferAddr + ucast ((offset + of_nat i) * 4)) of
        Inl e \<Rightarrow> Inl e
      | Inr v \<Rightarrow>
          (case read_payload mem bufferAddr offset (Suc i) n of
             Inl e \<Rightarrow> Inl e
           | Inr vs \<Rightarrow> Inr (v # vs)))"

text \<open>\<^verbatim>\<open>processCommandBuffer\<close>, started at word \<open>offset\<close> of the buffer, with
  \<^verbatim>\<open>handleIndirectBuffer\<close> inlined at its one call. The result is \<open>None\<close> when the parser
  does not return; otherwise the exception that escaped, if any, and the driver as it was
  left.\<close>

partial_function (option) processCommandBuffer ::
  "WeaR_Memory \<Rightarrow> u64 \<Rightarrow> u32 \<Rightarrow> u32 \<Rightarrow> WeaR_GnmDriver \<Rightarrow> (exn option \<times> WeaR_GnmDriver) option"
where
  "processCommandBuffer mem bufferAddr sizeInDwords offset d =
     (if \<not> offset < sizeInDwords then Some (None, d)
      else
        (case read32 mem (bufferAddr + ucast (offset * 4)) of
           Inl e \<Rightarrow> Some (Some e, d)
         | Inr headerRaw \<Rightarrow>
             if \<not> isType3 headerRaw
             then processCommandBuffer mem bufferAddr sizeInDwords (offset + 1)
                    (gnm_verbose (MsgNonType3 (pkt_type headerRaw)) d)
             else if (offset + 1) + payloadSize headerRaw > sizeInDwords
             then Some (None, gnm_logmsg (MsgPacketOverflow ((offset + 1) - 1)) d)
             else
               (case read_payload mem bufferAddr (offset + 1) 0 (unat (payloadSize headerRaw)) of
                  Inl e \<Rightarrow> Some (Some e, d)
                | Inr payload \<Rightarrow>
                    Option.bind
                      (if pkt_opcode headerRaw = IT_INDIRECT_BUFFER \<and> \<not> payloadSize headerRaw < 3
                       then processCommandBuffer mem
                              (ucast (payload ! 0) OR push_bit 32 (ucast (payload ! 1 AND 0xFFFF)))
                              (payload ! 2 AND 0xFFFFF) 0
                              (gnm_logmsg
                                 (MsgIndirectBuffer
                                    (ucast (payload ! 0) OR push_bit 32 (ucast (payload ! 1 AND 0xFFFF)))
                                    (payload ! 2 AND 0xFFFFF))
                                 (gnm_verbose (MsgPacket (pkt_opcode headerRaw) (payloadSize headerRaw)) d))
                       else Some (None,
                              if pkt_opcode headerRaw = IT_INDIRECT_BUFFER
                              then gnm_verbose (MsgPacket (pkt_opcode headerRaw) (payloadSize headerRaw)) d
                              else dispatch_packet (pkt_opcode headerRaw) payload (payloadSize headerRaw)
                                     (gnm_verbose (MsgPacket (pkt_opcode headerRaw) (payloadSize headerRaw)) d)))
                      (\<lambda>r. case fst r of
                              Some e \<Rightarrow> Some (Some e, snd r)
                            | None \<Rightarrow>
                                processCommandBuffer mem bufferAddr sizeInDwords
                                  ((offset + 1) + payloadSize headerRaw)
                                  ((snd r)\<lparr>m_packetsProcessed := m_packetsProcessed (snd r) + 1\<rparr>)))))"

declare processCommandBuffer.simps [code]



text \<open>\<^verbatim>\<open>handleSubmitCommandBuffers\<close>: buffer \<open>i\<close> of \<open>count\<close>; the index arithmetic
  \<^verbatim>\<open>i * 8\<close> and \<^verbatim>\<open>i * 4\<close> is on 32-bit unsigned integers.\<close>

partial_function (option) submit_loop ::
  "WeaR_Memory \<Rightarrow> u32 \<Rightarrow> u64 \<Rightarrow> u64 \<Rightarrow> nat \<Rightarrow> WeaR_GnmDriver \<Rightarrow> (exn option \<times> WeaR_GnmDriver) option"
where
  "submit_loop mem count cmdBuffersPtr sizesPtr i d =
     (if \<not> i < unat count then Some (None, d)
      else
        (case read64 mem (cmdBuffersPtr + ucast (of_nat i * 8 :: u32)) of
           Inl e \<Rightarrow> Some (Some e, d)
         | Inr bufferAddr \<Rightarrow>
             (case read32 mem (sizesPtr + ucast (of_nat i * 4 :: u32)) of
                Inl e \<Rightarrow> Some (Some e, d)
              | Inr sizeInBytes \<Rightarrow>
                  Option.bind
                    (processCommandBuffer mem bufferAddr (sizeInBytes div 4) 0
                       (gnm_verbose (MsgBuffer (of_nat i) bufferAddr (sizeInBytes div 4)) d))
                    (\<lambda>r. case fst r of
                            Some e \<Rightarrow> Some (Some e, snd r)
                          | None \<Rightarrow> submit_loop mem count cmdBuffersPtr sizesPtr (Suc i) (snd r)))))"

declare submit_loop.simps [code]

definition handleSubmitCommandBuffers ::
  "u32 \<Rightarrow> u64 \<Rightarrow> u64 \<Rightarrow> WeaR_Memory \<Rightarrow> WeaR_GnmDriver \<Rightarrow> ((exn + u32) \<times> WeaR_GnmDriver) option"
where
  "handleSubmitCommandBuffers count cmdBuffersPtr sizesPtr mem d =
     map_option (\<lambda>r. (case fst r of Some e \<Rightarrow> Inl e | None \<Rightarrow> Inr 0, snd r))
       (submit_loop mem count cmdBuffersPtr sizesPtr 0 (gnm_logmsg (MsgSubmitCommandBuffers count) d))"

section \<open>CPU context (Core/WeaR_Cpu.h)\<close>

text \<open>\<^verbatim>\<open>WeaR_Context\<close>. The general-purpose registers are a union of an anonymous struct of
  sixteen named 64-bit members and the array \<^verbatim>\<open>GPR\<close>: the array is the storage, and each
  named member is the array slot at its position in the struct's declaration order.\<close>

record WeaR_Context =
  GPR :: "u64 list"
  RIP :: u64
  RFLAGS :: u64
  CS :: u16
  DS :: u16
  ES :: u16
  FS :: u16
  GS :: u16
  SS :: u16
  xmm :: "(u64 \<times> u64) list"
  MXCSR :: u32

definition RAX :: nat where "RAX = 0"
definition RBX :: nat where "RBX = 1"
definition RCX :: nat where "RCX = 2"
definition RDX :: nat where "RDX = 3"
definition RSI :: nat where "RSI = 4"
definition RDI :: nat where "RDI = 5"
definition RBP :: nat where "RBP = 6"
definition RSP :: nat where "RSP = 7"
definition R8 :: nat where "R8 = 8"
definition R9 :: nat where "R9 = 9"
definition R10 :: nat where "R10 = 10"
definition R11 :: nat where "R11 = 11"
definition R12 :: nat where "R12 = 12"
definition R13 :: nat where "R13 = 13"
definition R14 :: nat where "R14 = 14"
definition R15 :: nat where "R15 = 15"

lemmas reg_defs =
  RAX_def RBX_def RCX_def RDX_def RSI_def RDI_def RBP_def RSP_def
  R8_def R9_def R10_def R11_def R12_def R13_def R14_def R15_def

definition get_reg :: "WeaR_Context \<Rightarrow> nat \<Rightarrow> u64" where
  "get_reg ctx r = GPR ctx ! r"

definition set_reg :: "WeaR_Context \<Rightarrow> nat \<Rightarrow> u64 \<Rightarrow> WeaR_Context" where
  "set_reg ctx r v = ctx\<lparr>GPR := (GPR ctx)[r := v]\<rparr>"

text \<open>\<^verbatim>\<open>getRegisterName\<close>, for indices below 16.\<close>

definition getRegisterName :: "nat \<Rightarrow> string" where
  "getRegisterName index =
     [''RAX'', ''RBX'', ''RCX'', ''RDX'', ''RSI'', ''RDI'', ''RBP'', ''RSP'',
      ''R8'', ''R9'', ''R10'', ''R11'', ''R12'', ''R13'', ''R14'', ''R15''] ! index"

definition WeaR_Context_reset :: WeaR_Context where
  "WeaR_Context_reset =
     \<lparr>GPR = replicate 16 0, RIP = 0, RFLAGS = 0x202, CS = 0, DS = 0, ES = 0, FS = 0, GS = 0,
      SS = 0, xmm = replicate 16 (0, 0), MXCSR = 0x1F80\<rparr>"

datatype CpuState = Stopped | Running | Paused | Halted | Faulted

section \<open>System-call dispatcher (HLE/WeaR_Syscalls.h, WeaR_Syscalls.cpp)\<close>

definition SYS_exit :: u64 where "SYS_exit = 1"
definition SYS_write :: u64 where "SYS_write = 4"
definition SYS_getpid :: u64 where "SYS_getpid = 20"
definition SYS_getuid :: u64 where "SYS_getuid = 24"
definition SYS_mmap :: u64 where "SYS_mmap = 477"
definition SYS_sceGnmSubmitCommandBuffers :: u64 where "SYS_sceGnmSubmitCommandBuffers = 591"
definition SYS_sceKernelLoadStartModule :: u64 where "SYS_sceKernelLoadStartModule = 594"
definition SYS_sceKernelDebugOut :: u64 where "SYS_sceKernelDebugOut = 602"
definition SYS_sceGnmSubmitDone :: u64 where "SYS_sceGnmSubmitDone = 614"
definition SYS_sceKernelIsNeoMode :: u64 where "SYS_sceKernelIsNeoMode = 618"
definition SYS_sceKernelGetCpuTemperature :: u64 where "SYS_sceKernelGetCpuTemperature = 621"
definition SYS_sceGnmGetGpuCoreClockFrequency :: u64 where "SYS_sceGnmGetGpuCoreClockFrequency = 626"

lemmas syscall_defs =
  SYS_exit_def SYS_write_def SYS_getpid_def SYS_getuid_def SYS_mmap_def
  SYS_sceGnmSubmitCommandBuffers_def SYS_sceKernelLoadStartModule_def SYS_sceKernelDebugOut_def
  SYS_sceGnmSubmitDone_def SYS_sceKernelIsNeoMode_def SYS_sceKernelGetCpuTemperature_def
  SYS_sceGnmGetGpuCoreClockFrequency_def

text \<open>\<^verbatim>\<open>SyscallResult\<close>; the signed 64-bit value is kept as its two's-complement bits, which
  is what the cast into RAX stores.\<close>

record SyscallResult =
  res_value :: u64
  res_success :: bool
  res_error :: string

text \<open>The lines the dispatcher and its handlers pass to \<^verbatim>\<open>log\<close>, one constructor per format
  string. \<open>LogUnimplemented n\<close> is \<^verbatim>\<open>"Unimplemented syscall: {name} ({n})"\<close>,
  \<open>LogHandlerError n e\<close> is \<^verbatim>\<open>"{name}: {e}"\<close> and \<open>LogFd fd text\<close> is \<^verbatim>\<open>"[fd{fd}] {text}"\<close>.
  Text read from guest memory is a list of bytes.\<close>

datatype log_msg =
  LogUnimplemented u64
  | LogHandlerError u64 string
  | LogExit u32
  | LogFd u64 "u8 list"
  | LogMmap u64 u64 u64
  | LogDebug "u8 list"
  | LogLoadStartModule "u8 list"
  | LogGnmSubmit u64
  | LogGnmSubmitDone

text \<open>What the handlers share: the log sink, the function-local statics of the mmap and
  module-load handlers, and the global GNM driver; and, of the host, the largest capacity
  that \<^verbatim>\<open>std::string::reserve\<close> grants: beyond it \<^verbatim>\<open>reserve\<close> throws \<^verbatim>\<open>std::length_error\<close> or
  \<^verbatim>\<open>std::bad_alloc\<close>. It is at most \<^verbatim>\<open>max_size()\<close>, which is \<open>2^63 - 1\<close> for the 64-bit library the
  build targets, and less on a host that is short of memory; the initial state is that of a
  host that grants all of it.\<close>

record hle_state =
  sys_log :: "log_msg list"
  nextAlloc :: u64
  nextModuleId :: u32
  gnm :: WeaR_GnmDriver
  string_capacity :: nat

definition string_max_size :: nat where
  "string_max_size = 2 ^ 63 - 1"

definition hle_state_init :: hle_state where
  "hle_state_init =
     \<lparr>sys_log = [], nextAlloc = HEAP_BASE, nextModuleId = 100, gnm = WeaR_GnmDriver_init,
      string_capacity = string_max_size\<rparr>"

definition sys_logmsg :: "log_msg \<Rightarrow> hle_state \<Rightarrow> hle_state" where
  "sys_logmsg msg h = h\<lparr>sys_log := sys_log h @ [msg]\<rparr>"

text \<open>\<^verbatim>\<open>HleFunction\<close>: the context, the memory, the shared state and the six argument
  registers. A handler that does not return yields \<open>None\<close>; otherwise it returns or throws,
  and leaves context, memory and shared state behind.\<close>

type_synonym HleFunction =
  "WeaR_Context \<Rightarrow> WeaR_Memory \<Rightarrow> hle_state \<Rightarrow> u64 \<Rightarrow> u64 \<Rightarrow> u64 \<Rightarrow> u64 \<Rightarrow> u64 \<Rightarrow> u64
   \<Rightarrow> ((exn + SyscallResult) \<times> WeaR_Context \<times> WeaR_Memory \<times> hle_state) option"

record WeaR_Syscalls =
  m_handlers :: "u64 \<Rightarrow> HleFunction option"
  m_totalCalls :: u64
  m_unimplementedCalls :: u64
  hle :: hle_state

definition registerHandler :: "u64 \<Rightarrow> HleFunction \<Rightarrow> WeaR_Syscalls \<Rightarrow> WeaR_Syscalls" where
  "registerHandler syscallNum handler s = s\<lparr>m_handlers := (m_handlers s)(syscallNum \<mapsto> handler)\<rparr>"

text \<open>\<^verbatim>\<open>dispatch\<close>. The six argument registers are read through the named members of the
  context.\<close>

definition dispatch ::
  "WeaR_Context \<Rightarrow> WeaR_Memory \<Rightarrow> WeaR_Syscalls
   \<Rightarrow> (exn option \<times> WeaR_Context \<times> WeaR_Memory \<times> WeaR_Syscalls) option"
where
  "dispatch ctx mem s =
     (let s1 = s\<lparr>m_totalCalls := m_totalCalls s + 1\<rparr>;
          syscallNum = get_reg ctx RAX;
          rdi = get_reg ctx RDI;
          rsi = get_reg ctx RSI;
          rdx = get_reg ctx RDX;
          r10 = get_reg ctx R10;
          r8 = get_reg ctx R8;
          r9 = get_reg ctx R9
      in case m_handlers s1 syscallNum of
           Some handler \<Rightarrow>
             (case handler ctx mem (hle s1) rdi rsi rdx r10 r8 r9 of
                None \<Rightarrow> None
              | Some (Inl e, ctx', mem', h') \<Rightarrow> Some (Some e, ctx', mem', s1\<lparr>hle := h'\<rparr>)
              | Some (Inr result, ctx', mem', h') \<Rightarrow>
                  Some (None, set_reg ctx' RAX (res_value result), mem',
                        s1\<lparr>hle := (if \<not> res_success result
                                     then sys_logmsg (LogHandlerError syscallNum (res_error result)) h'
                                     else h')\<rparr>))
         | None \<Rightarrow>
             Some (None, set_reg ctx RAX 0, mem,
                   s1\<lparr>m_unimplementedCalls := m_unimplementedCalls s1 + 1,
                      hle := sys_logmsg (LogUnimplemented syscallNum) (hle s1)\<rparr>))"

text \<open>The character loops of the handlers: up to \<open>n\<close> bytes from \<open>addr + i\<close> on, stopping
  before the first zero byte; a faulting read throws.\<close>

fun read_chars :: "WeaR_Memory \<Rightarrow> u64 \<Rightarrow> nat \<Rightarrow> nat \<Rightarrow> exn + u8 list" where
  "read_chars mem addr i 0 = Inr []"
| "read_chars mem addr i (Suc n) =
     (case read8 mem (addr + of_nat i) of
        Inl e \<Rightarrow> Inl e
      | Inr c \<Rightarrow>
          if c = 0 then Inr []
          else (case read_chars mem addr (Suc i) n of
                  Inl e \<Rightarrow> Inl e
                | Inr cs \<Rightarrow> Inr (c # cs)))"

definition ok_result :: "u64 \<Rightarrow> SyscallResult" where
  "ok_result v = \<lparr>res_value = v, res_success = True, res_error = []\<rparr>"

definition err_result :: "u64 \<Rightarrow> string \<Rightarrow> SyscallResult" where
  "err_result v e = \<lparr>res_value = v, res_success = False, res_error = e\<rparr>"

definition hle_sys_exit :: HleFunction where
  "hle_sys_exit ctx mem h rdi rsi rdx r10 r8 r9 =
     Some (Inr (ok_result 0), set_reg ctx RAX 0, mem, sys_logmsg (LogExit (ucast rdi)) h)"

text \<open>The write handler. \<^verbatim>\<open>output.reserve(count)\<close> stands before the \<^verbatim>\<open>try\<close> block, so that what
  it throws leaves the handler.\<close>

definition hle_sys_write :: HleFunction where
  "hle_sys_write ctx mem h fd buf count r10 r8 r9 =
     (if unat count > string_capacity h then Some (Inl StdException, ctx, mem, h)
      else
        (case read_chars mem buf 0 (min (unat count) 4096) of
           Inl e \<Rightarrow> Some (Inr (err_result (- 14) ''EFAULT: Bad address''), ctx, mem, h)
         | Inr output \<Rightarrow>
             Some (Inr (ok_result (of_nat (length output))), ctx, mem,
                   if fd = 1 \<or> fd = 2 then sys_logmsg (LogFd fd output) h else h)))"

definition hle_sys_mmap :: HleFunction where
  "hle_sys_mmap ctx mem h addr len prot flags fd offset =
     (let allocAddr = (if addr \<noteq> 0 then addr else nextAlloc h);
          alignedLen = (len + 0xFFF) AND NOT 0xFFF
      in Some (Inr (ok_result allocAddr), ctx, mem,
               sys_logmsg (LogMmap addr len allocAddr) (h\<lparr>nextAlloc := nextAlloc h + alignedLen\<rparr>)))"

definition hle_sys_getpid :: HleFunction where
  "hle_sys_getpid ctx mem h rdi rsi rdx r10 r8 r9 = Some (Inr (ok_result 1000), ctx, mem, h)"

definition hle_sys_getuid :: HleFunction where
  "hle_sys_getuid ctx mem h rdi rsi rdx r10 r8 r9 = Some (Inr (ok_result 0), ctx, mem, h)"

definition hle_sceKernelDebugOut :: HleFunction where
  "hle_sceKernelDebugOut ctx mem h msgPtr rsi rdx r10 r8 r9 =
     (case read_chars mem msgPtr 0 1024 of
        Inl e \<Rightarrow> Some (Inr (err_result (- 14) ''EFAULT''), ctx, mem, h)
      | Inr message \<Rightarrow> Some (Inr (ok_result 0), ctx, mem, sys_logmsg (LogDebug message) h))"

definition hle_sceKernelIsNeoMode :: HleFunction where
  "hle_sceKernelIsNeoMode ctx mem h rdi rsi rdx r10 r8 r9 = Some (Inr (ok_result 1), ctx, mem, h)"

definition hle_sceKernelGetCpuTemperature :: HleFunction where
  "hle_sceKernelGetCpuTemperature ctx mem h tempPtr rsi rdx r10 r8 r9 =
     (if tempPtr \<noteq> 0
      then (case write32 mem tempPtr 45 of
              Inl e \<Rightarrow> Some (Inl e, ctx, mem, h)
            | Inr mem' \<Rightarrow> Some (Inr (ok_result 0), ctx, mem', h))
      else Some (Inr (ok_result 0), ctx, mem, h))"

definition hle_sceKernelLoadStartModule :: HleFunction where
  "hle_sceKernelLoadStartModule ctx mem h pathPtr rsi rdx r10 r8 r9 =
     (case read_chars mem pathPtr 0 256 of
        Inl e \<Rightarrow> Some (Inr (err_result (- 1) ''EFAULT''), ctx, mem, h)
      | Inr path \<Rightarrow>
          Some (Inr (ok_result (scast (nextModuleId h))), ctx, mem,
                (sys_logmsg (LogLoadStartModule path) h)\<lparr>nextModuleId := nextModuleId h + 1\<rparr>))"

definition hle_sceGnmSubmitCommandBuffers :: HleFunction where
  "hle_sceGnmSubmitCommandBuffers ctx mem h count cmdBuffersPtr sizesPtr r10 r8 r9 =
     (let h1 = sys_logmsg (LogGnmSubmit count) h
      in case handleSubmitCommandBuffers (ucast count) cmdBuffersPtr sizesPtr mem (gnm h1) of
           None \<Rightarrow> None
         | Some (Inl e, d) \<Rightarrow> Some (Inl e, ctx, mem, h1\<lparr>gnm := d\<rparr>)
         | Some (Inr result, d) \<Rightarrow>
             Some (Inr \<lparr>res_value = scast result, res_success = (result = 0), res_error = []\<rparr>,
                   ctx, mem, h1\<lparr>gnm := d\<rparr>))"

definition hle_sceGnmSubmitDone :: HleFunction where
  "hle_sceGnmSubmitDone ctx mem h rdi rsi rdx r10 r8 r9 =
     Some (Inr (ok_result 0), ctx, mem, sys_logmsg LogGnmSubmitDone h)"

definition hle_sceGnmGetGpuCoreClockFrequency :: HleFunction where
  "hle_sceGnmGetGpuCoreClockFrequency ctx mem h rdi rsi rdx r10 r8 r9 =
     Some (Inr (ok_result 911), ctx, mem, h)"

definition registerDefaultHandlers :: "WeaR_Syscalls \<Rightarrow> WeaR_Syscalls" where
  "registerDefaultHandlers =
     registerHandler SYS_sceGnmGetGpuCoreClockFrequency hle_sceGnmGetGpuCoreClockFrequency
     \<circ> registerHandler SYS_sceGnmSubmitDone hle_sceGnmSubmitDone
     \<circ> registerHandler SYS_sceGnmSubmitCommandBuffers hle_sceGnmSubmitCommandBuffers
     \<circ> registerHandler SYS_sceKernelLoadStartModule hle_sceKernelLoadStartModule
     \<circ> registerHandler SYS_sceKernelGetCpuTemperature hle_sceKernelGetCpuTemperature
     \<circ> registerHandler SYS_sceKernelIsNeoMode hle_sceKernelIsNeoMode
     \<circ> registerHandler SYS_sceKernelDebugOut hle_sceKernelDebugOut
     \<circ> registerHandler SYS_getuid hle_sys_getuid
     \<circ> registerHandler SYS_getpid hle_sys_getpid
     \<circ> registerHandler SYS_mmap hle_sys_mmap
     \<circ> registerHandler SYS_write hle_sys_write
     \<circ> registerHandler SYS_exit hle_sys_exit"

text \<open>The constructor of \<^verbatim>\<open>WeaR_Syscalls\<close>, that is, the global dispatcher as
  \<^verbatim>\<open>getSyscallDispatcher\<close> first returns it.\<close>

definition WeaR_Syscalls_init :: WeaR_Syscalls where
  "WeaR_Syscalls_init =
     registerDefaultHandlers
       \<lparr>m_handlers = Map.empty, m_totalCalls = 0, m_unimplementedCalls = 0, hle = hle_state_init\<rparr>"

section \<open>CPU interpreter (Core/WeaR_Cpu.h, WeaR_Cpu.cpp)\<close>

text \<open>\<^verbatim>\<open>SyscallHandler\<close>: a closure over the context; the one the emulator installs also
  reaches the memory and the global dispatcher.\<close>

type_synonym SyscallHandler =
  "WeaR_Context \<Rightarrow> WeaR_Memory \<Rightarrow> WeaR_Syscalls
   \<Rightarrow> (exn option \<times> WeaR_Context \<times> WeaR_Memory \<times> WeaR_Syscalls) option"

text \<open>What the interpreter prints to the console, one constructor per format string.\<close>

datatype console_msg =
  ConResetComplete
  | ConStarting u64
  | ConStopped u64
  | ConMemoryFault u64 exn
  | ConException exn
  | ConSyscallNoHandler u64
  | ConHlt
  | ConUnknownOpcode u8 u64

record WeaR_Cpu =
  m_context :: WeaR_Context
  m_state :: CpuState
  m_shouldStop :: bool
  m_instructionCount :: u64
  m_lastOpcode :: u8
  m_syscallHandler :: "SyscallHandler option"
  console :: "console_msg list"

text \<open>The interpreter with the memory it holds a reference to and the dispatcher its
  handler reaches.\<close>

record Machine =
  cpu :: WeaR_Cpu
  memory :: WeaR_Memory
  sys :: WeaR_Syscalls

definition ctx_of :: "Machine \<Rightarrow> WeaR_Context" where
  "ctx_of m = m_context (cpu m)"

definition with_ctx :: "(WeaR_Context \<Rightarrow> WeaR_Context) \<Rightarrow> Machine \<Rightarrow> Machine" where
  "with_ctx f m = m\<lparr>cpu := (cpu m)\<lparr>m_context := f (m_context (cpu m))\<rparr>\<rparr>"

definition print :: "console_msg \<Rightarrow> Machine \<Rightarrow> Machine" where
  "print msg m = m\<lparr>cpu := (cpu m)\<lparr>console := console (cpu m) @ [msg]\<rparr>\<rparr>"

definition set_state :: "CpuState \<Rightarrow> Machine \<Rightarrow> Machine" where
  "set_state st m = m\<lparr>cpu := (cpu m)\<lparr>m_state := st\<rparr>\<rparr>"

definition set_lastOpcode :: "u8 \<Rightarrow> Machine \<Rightarrow> Machine" where
  "set_lastOpcode opc m = m\<lparr>cpu := (cpu m)\<lparr>m_lastOpcode := opc\<rparr>\<rparr>"

text \<open>\<^verbatim>\<open>WeaR_Cpu::reset\<close>, \<^verbatim>\<open>stop\<close>, \<^verbatim>\<open>pause\<close> and \<^verbatim>\<open>resume\<close>.\<close>

definition cpu_reset :: "WeaR_Cpu \<Rightarrow> WeaR_Cpu" where
  "cpu_reset c =
     c\<lparr>m_context := WeaR_Context_reset, m_state := Stopped, m_shouldStop := False,
       m_instructionCount := 0, m_lastOpcode := 0, console := console c @ [ConResetComplete]\<rparr>"

definition cpu_stop :: "WeaR_Cpu \<Rightarrow> WeaR_Cpu" where
  "cpu_stop c = c\<lparr>m_shouldStop := True, m_state := Stopped\<rparr>"

definition cpu_pause :: "WeaR_Cpu \<Rightarrow> WeaR_Cpu" where
  "cpu_pause c = (if m_state c = Running then c\<lparr>m_state := Paused\<rparr> else c)"

definition cpu_resume :: "WeaR_Cpu \<Rightarrow> WeaR_Cpu" where
  "cpu_resume c = (if m_state c = Paused then c\<lparr>m_state := Running\<rparr> else c)"

text \<open>The constructor: no handler yet, then \<^verbatim>\<open>reset\<close>.\<close>

definition WeaR_Cpu_init :: WeaR_Cpu where
  "WeaR_Cpu_init =
     cpu_reset \<lparr>m_context = WeaR_Context_reset, m_state = Stopped, m_shouldStop = False,
                m_instructionCount = 0, m_lastOpcode = 0, m_syscallHandler = None, console = []\<rparr>"

text \<open>The fetch helpers: the read may throw, and only then is the instruction pointer left
  where it was.\<close>

definition fetchByte :: "Machine \<Rightarrow> (exn + u8) \<times> Machine" where
  "fetchByte m =
     (case read8 (memory m) (RIP (ctx_of m)) of
        Inl e \<Rightarrow> (Inl e, m)
      | Inr v \<Rightarrow> (Inr v, with_ctx (\<lambda>c. c\<lparr>RIP := RIP c + 1\<rparr>) m))"

definition fetchWord :: "Machine \<Rightarrow> (exn + u16) \<times> Machine" where
  "fetchWord m =
     (case read16 (memory m) (RIP (ctx_of m)) of
        Inl e \<Rightarrow> (Inl e, m)
      | Inr v \<Rightarrow> (Inr v, with_ctx (\<lambda>c. c\<lparr>RIP := RIP c + 2\<rparr>) m))"

definition fetchDword :: "Machine \<Rightarrow> (exn + u32) \<times> Machine" where
  "fetchDword m =
     (case read32 (memory m) (RIP (ctx_of m)) of
        Inl e \<Rightarrow> (Inl e, m)
      | Inr v \<Rightarrow> (Inr v, with_ctx (\<lambda>c. c\<lparr>RIP := RIP c + 4\<rparr>) m))"

definition fetchQword :: "Machine \<Rightarrow> (exn + u64) \<times> Machine" where
  "fetchQword m =
     (case read64 (memory m) (RIP (ctx_of m)) of
        Inl e \<Rightarrow> (Inl e, m)
      | Inr v \<Rightarrow> (Inr v, with_ctx (\<lambda>c. c\<lparr>RIP := RIP c + 8\<rparr>) m))"

text \<open>The instruction implementations. Each returns the exception it threw, if any, and the
  machine with whatever it had changed up to then.\<close>

definition execNOP :: "Machine \<Rightarrow> exn option \<times> Machine" where
  "execNOP m = (None, m)"

definition execRET :: "Machine \<Rightarrow> exn option \<times> Machine" where
  "execRET m =
     (case read64 (memory m) (get_reg (ctx_of m) RSP) of
        Inl e \<Rightarrow> (Some e, m)
      | Inr retAddr \<Rightarrow>
          (None, with_ctx (\<lambda>c. (set_reg c RSP (get_reg c RSP + 8))\<lparr>RIP := retAddr\<rparr>) m))"

definition execJMP_rel32 :: "Machine \<Rightarrow> exn option \<times> Machine" where
  "execJMP_rel32 m =
     (case fetchDword m of
        (Inl e, m1) \<Rightarrow> (Some e, m1)
      | (Inr offset, m1) \<Rightarrow> (None, with_ctx (\<lambda>c. c\<lparr>RIP := RIP c + scast offset\<rparr>) m1))"

definition execCALL_rel32 :: "Machine \<Rightarrow> exn option \<times> Machine" where
  "execCALL_rel32 m =
     (case fetchDword m of
        (Inl e, m1) \<Rightarrow> (Some e, m1)
      | (Inr offset, m1) \<Rightarrow>
          (let m2 = with_ctx (\<lambda>c. set_reg c RSP (get_reg c RSP - 8)) m1
           in case write64 (memory m2) (get_reg (ctx_of m2) RSP) (RIP (ctx_of m2)) of
                Inl e \<Rightarrow> (Some e, m2)
              | Inr mem' \<Rightarrow>
                  (None, with_ctx (\<lambda>c. c\<lparr>RIP := RIP c + scast offset\<rparr>) (m2\<lparr>memory := mem'\<rparr>))))"

definition execMOV_reg_imm64 :: "u8 \<Rightarrow> Machine \<Rightarrow> exn option \<times> Machine" where
  "execMOV_reg_imm64 reg m =
     (case fetchQword m of
        (Inl e, m1) \<Rightarrow> (Some e, m1)
      | (Inr imm, m1) \<Rightarrow>
          (None, if reg < 16 then with_ctx (\<lambda>c. set_reg c (unat reg) imm) m1 else m1))"

definition execPUSH_reg :: "u8 \<Rightarrow> Machine \<Rightarrow> exn option \<times> Machine" where
  "execPUSH_reg reg m =
     (let m1 = with_ctx (\<lambda>c. set_reg c RSP (get_reg c RSP - 8)) m
      in case write64 (memory m1) (get_reg (ctx_of m1) RSP) (get_reg (ctx_of m1) (unat reg)) of
           Inl e \<Rightarrow> (Some e, m1)
         | Inr mem' \<Rightarrow> (None, m1\<lparr>memory := mem'\<rparr>))"

definition execPOP_reg :: "u8 \<Rightarrow> Machine \<Rightarrow> exn option \<times> Machine" where
  "execPOP_reg reg m =
     (case read64 (memory m) (get_reg (ctx_of m) RSP) of
        Inl e \<Rightarrow> (Some e, m)
      | Inr v \<Rightarrow>
          (None, with_ctx (\<lambda>c. set_reg (set_reg c (unat reg) v) RSP
                                 (get_reg (set_reg c (unat reg) v) RSP + 8)) m))"

definition execSYSCALL :: "Machine \<Rightarrow> (exn option \<times> Machine) option" where
  "execSYSCALL m =
     (case m_syscallHandler (cpu m) of
        None \<Rightarrow> Some (None, print (ConSyscallNoHandler (get_reg (ctx_of m) RAX)) m)
      | Some handler \<Rightarrow>
          (case handler (ctx_of m) (memory m) (sys m) of
             None \<Rightarrow> None
           | Some (ex, ctx', mem', sys') \<Rightarrow>
               Some (ex, (with_ctx (\<lambda>_. ctx') m)\<lparr>memory := mem', sys := sys'\<rparr>)))"

definition execHLT :: "Machine \<Rightarrow> exn option \<times> Machine" where
  "execHLT m = (None, set_state Halted (print ConHlt m))"

definition execUnknown :: "u8 \<Rightarrow> Machine \<Rightarrow> exn option \<times> Machine" where
  "execUnknown opcode m = (None, print (ConUnknownOpcode opcode (RIP (ctx_of m) - 1)) m)"

definition returning :: "u32 \<Rightarrow> exn option \<times> Machine \<Rightarrow> (exn + u32) \<times> Machine" where
  "returning cycles r = (case fst r of Some e \<Rightarrow> (Inl e, snd r) | None \<Rightarrow> (Inr cycles, snd r))"

text \<open>The \<^verbatim>\<open>switch\<close> of \<^verbatim>\<open>step\<close> on the opcode, after the optional REX prefix.\<close>

definition decode_execute :: "bool \<Rightarrow> u8 \<Rightarrow> u8 \<Rightarrow> Machine \<Rightarrow> ((exn + u32) \<times> Machine) option" where
  "decode_execute hasREX rex opcode m =
     (if opcode = 0x90 then Some (returning 1 (execNOP m))
      else if opcode = 0xC3 then Some (returning 1 (execRET m))
      else if opcode = 0xE9 then Some (returning 1 (execJMP_rel32 m))
      else if opcode = 0xE8 then Some (returning 1 (execCALL_rel32 m))
      else if opcode = 0xF4 then Some (returning 0 (execHLT m))
      else if 0x50 \<le> opcode \<and> opcode \<le> 0x57 then Some (returning 1 (execPUSH_reg (opcode - 0x50) m))
      else if 0x58 \<le> opcode \<and> opcode \<le> 0x5F then Some (returning 1 (execPOP_reg (opcode - 0x58) m))
      else if 0xB8 \<le> opcode \<and> opcode \<le> 0xBF then
        (if hasREX \<and> rex AND 0x08 \<noteq> 0
         then Some (returning 1
                (execMOV_reg_imm64 (opcode - 0xB8 + (if rex AND 0x01 \<noteq> 0 then 8 else 0)) m))
         else
           (case fetchDword m of
              (Inl e, m1) \<Rightarrow> Some (Inl e, m1)
            | (Inr imm, m1) \<Rightarrow>
                Some (Inr 1, with_ctx (\<lambda>c. set_reg c (unat (opcode - 0xB8)) (ucast imm)) m1)))
      else if opcode = 0x0F then
        (case fetchByte m of
           (Inl e, m1) \<Rightarrow> Some (Inl e, m1)
         | (Inr opcode2, m1) \<Rightarrow>
             if opcode2 = 0x05 then map_option (returning 1) (execSYSCALL m1)
             else Some (returning 1 (execUnknown opcode2 m1)))
      else Some (returning 1 (execUnknown opcode m)))"

text \<open>The \<^verbatim>\<open>try\<close> block of \<^verbatim>\<open>step\<close>.\<close>

definition step_try :: "Machine \<Rightarrow> ((exn + u32) \<times> Machine) option" where
  "step_try m =
     (case fetchByte m of
        (Inl e, m1) \<Rightarrow> Some (Inl e, m1)
      | (Inr opcode, m1) \<Rightarrow>
          (let m2 = set_lastOpcode opcode m1
           in if opcode AND 0xF0 = 0x40
              then (case fetchByte m2 of
                      (Inl e, m3) \<Rightarrow> Some (Inl e, m3)
                    | (Inr opcode', m3) \<Rightarrow>
                        decode_execute True opcode opcode' (set_lastOpcode opcode' m3))
              else decode_execute False 0 opcode m2))"

text \<open>\<^verbatim>\<open>step\<close>: the cycles consumed and the machine afterwards; \<open>None\<close> when the system-call
  handler does not return. Both \<^verbatim>\<open>catch\<close> clauses set the state to \<open>Faulted\<close> and return 0.\<close>

definition step :: "Machine \<Rightarrow> (u32 \<times> Machine) option" where
  "step m =
     (case step_try m of
        None \<Rightarrow> None
      | Some (Inr cycles, m') \<Rightarrow> Some (cycles, m')
      | Some (Inl e, m') \<Rightarrow>
          Some (0, set_state Faulted
                     (print (case e of
                               MemoryAccessException t a n \<Rightarrow> ConMemoryFault (RIP (ctx_of m')) e
                             | StdException \<Rightarrow> ConException e) m')))"

text \<open>The \<^verbatim>\<open>while\<close> loop of \<^verbatim>\<open>runLoop\<close>, with no other thread touching the control flags,
  and \<^verbatim>\<open>runLoop\<close> itself. \<open>None\<close>: the loop does not end.\<close>

partial_function (option) runLoop_while :: "Machine \<Rightarrow> Machine option" where
  "runLoop_while m =
     (if m_shouldStop (cpu m) then Some m
      else if m_state (cpu m) = Paused then runLoop_while m
      else
        (case step m of
           None \<Rightarrow> None
         | Some r \<Rightarrow>
             if fst r = 0 then Some (snd r)
             else runLoop_while
                    ((snd r)\<lparr>cpu := (cpu (snd r))\<lparr>m_instructionCount :=
                                                   m_instructionCount (cpu (snd r)) + 1\<rparr>\<rparr>)))"

declare runLoop_while.simps [code]

definition runLoop :: "Machine \<Rightarrow> Machine option" where
  "runLoop m =
     (let m0 = print (ConStarting (RIP (ctx_of m))) m;
          m1 = m0\<lparr>cpu := (cpu m0)\<lparr>m_state := Running, m_shouldStop := False\<rparr>\<rparr>
      in case runLoop_while m1 of
           None \<Rightarrow> None
         | Some m2 \<Rightarrow>
             (let m3 = print (ConStopped (m_instructionCount (cpu m2))) m2
              in Some (if m_state (cpu m3) \<noteq> Faulted then set_state Stopped m3 else m3)))"

section \<open>Internal BIOS (Core/WeaR_InternalBios.h)\<close>

definition ENTRY_POINT :: u64 where "ENTRY_POINT = 0x400000"
definition STRING_ADDR :: u64 where "STRING_ADDR = 0x400200"

text \<open>The boot message \<^verbatim>\<open>"WeaR-emu Internal BIOS v1.0\n"\<close> as bytes.\<close>

definition bootMsg :: "u8 list" where
  "bootMsg = map of_char ''WeaR-emu Internal BIOS v1.0'' @ [0x0A]"

text \<open>One \<^verbatim>\<open>mem.write<T>(addr, v)\<close> of the program emitter together with the advance of
  \<^verbatim>\<open>addr\<close> by the size of \<open>T\<close>.\<close>

datatype emit = E8 u8 | E32 u32 | E64 u64

fun emit_one :: "emit \<Rightarrow> WeaR_Memory \<times> u64 \<Rightarrow> exn + WeaR_Memory \<times> u64" where
  "emit_one (E8 v) (mem, addr) = map_sum id (\<lambda>mem'. (mem', addr + 1)) (write8 mem addr v)"
| "emit_one (E32 v) (mem, addr) = map_sum id (\<lambda>mem'. (mem', addr + 4)) (write32 mem addr v)"
| "emit_one (E64 v) (mem, addr) = map_sum id (\<lambda>mem'. (mem', addr + 8)) (write64 mem addr v)"

fun emit_all :: "emit list \<Rightarrow> WeaR_Memory \<times> u64 \<Rightarrow> exn + WeaR_Memory \<times> u64" where
  "emit_all [] st = Inr st"
| "emit_all (e # es) st = (case emit_one e st of Inl x \<Rightarrow> Inl x | Inr st' \<Rightarrow> emit_all es st')"

text \<open>The byte loop that stores the message at \<^verbatim>\<open>STRING_ADDR + i\<close>.\<close>

fun write_chars :: "WeaR_Memory \<Rightarrow> u64 \<Rightarrow> nat \<Rightarrow> u8 list \<Rightarrow> exn + WeaR_Memory" where
  "write_chars mem addr i [] = Inr mem"
| "write_chars mem addr i (c # cs) =
     (case write8 mem (addr + of_nat i) c of
        Inl e \<Rightarrow> Inl e
      | Inr mem' \<Rightarrow> write_chars mem' addr (Suc i) cs)"

text \<open>The program up to the idle loop: \<^verbatim>\<open>sys_write(1, bootMsg, strlen(bootMsg))\<close> and
  \<^verbatim>\<open>sceAudioOutInit()\<close>, in the source's bytes and with the source's comments.\<close>

definition bios_head :: "emit list" where
  "bios_head =
     [E8 0x48, E8 0xC7, E8 0xC0, E32 4,
      E8 0x48, E8 0xC7, E8 0xC7, E32 1,
      E8 0x48, E8 0xBE, E64 STRING_ADDR,
      E8 0x48, E8 0xC7, E8 0xC2, E32 (of_nat (length bootMsg)),
      E8 0x0F, E8 0x05,
      E8 0x48, E8 0xC7, E8 0xC0, E32 495,
      E8 0x0F, E8 0x05]"

text \<open>The idle loop before its closing jump: \<^verbatim>\<open>scePadReadState(0, 0x400300)\<close> and PAUSE.\<close>

definition bios_loop :: "emit list" where
  "bios_loop =
     [E8 0x48, E8 0xC7, E8 0xC0, E32 571,
      E8 0x48, E8 0xC7, E8 0xC7, E32 0,
      E8 0x48, E8 0xBE, E64 0x400300,
      E8 0x0F, E8 0x05,
      E8 0xF3, E8 0x90]"

text \<open>\<^verbatim>\<open>InternalBios::load\<close>. The context is initialised through its named members.\<close>

definition load :: "WeaR_Memory \<Rightarrow> WeaR_Context \<Rightarrow> exn + u64 \<times> WeaR_Memory \<times> WeaR_Context" where
  "load mem ctx =
     (case write_chars mem STRING_ADDR 0 bootMsg of
        Inl e \<Rightarrow> Inl e
      | Inr mem1 \<Rightarrow>
     (case write8 mem1 (STRING_ADDR + of_nat (length bootMsg)) 0 of
        Inl e \<Rightarrow> Inl e
      | Inr mem2 \<Rightarrow>
     (case emit_all bios_head (mem2, ENTRY_POINT) of
        Inl e \<Rightarrow> Inl e
      | Inr (mem3, loopStart) \<Rightarrow>
     (case emit_all bios_loop (mem3, loopStart) of
        Inl e \<Rightarrow> Inl e
      | Inr (mem4, addr) \<Rightarrow>
     (case emit_all [E8 0xE9, E32 (ucast (loopStart - (addr + 5)))] (mem4, addr) of
        Inl e \<Rightarrow> Inl e
      | Inr (mem5, addr') \<Rightarrow>
          (let c1 = ctx\<lparr>RIP := ENTRY_POINT\<rparr>;
               c2 = set_reg c1 RSP (STACK_TOP - 0x1000);
               c3 = set_reg c2 RBP (get_reg c2 RSP);
               c4 = c3\<lparr>RFLAGS := 0x202\<rparr>;
               c5 = fold (\<lambda>r c. set_reg c r 0)
                      [RDX, RCX, RBX, RAX, RDI, RSI, R11, R10, R9, R8, R15, R14, R13, R12] c4
           in Inr (ENTRY_POINT, mem5, c5)))))))"

section \<open>Emulator core (Core/WeaR_EmulatorCore.cpp)\<close>

datatype EmuState = EmuIdle | EmuBooting | EmuRunning | EmuPaused | EmuStopping | EmuError

text \<open>What the core passes to its own \<^verbatim>\<open>log\<close>.\<close>

datatype core_msg = CoreText string | CoreBiosLoaded u64

text \<open>The core. \<open>machine\<close> is \<open>None\<close> while the memory and CPU pointers are null. The audio
  manager, the input manager and the state and log callbacks are outside the model.\<close>

record WeaR_EmulatorCore =
  machine :: "Machine option"
  m_initialized :: bool
  m_gameLoaded :: bool
  m_entryPoint :: u64
  m_gamePath :: string
  m_emuState :: EmuState
  m_cpuRunning :: bool
  core_log :: "core_msg list"

definition core_logmsg :: "core_msg \<Rightarrow> WeaR_EmulatorCore \<Rightarrow> WeaR_EmulatorCore" where
  "core_logmsg msg c = c\<lparr>core_log := core_log c @ [msg]\<rparr>"

definition setState :: "EmuState \<Rightarrow> WeaR_EmulatorCore \<Rightarrow> WeaR_EmulatorCore" where
  "setState st c = c\<lparr>m_emuState := st\<rparr>"

text \<open>The core of a fresh process.\<close>

definition WeaR_EmulatorCore_init :: WeaR_EmulatorCore where
  "WeaR_EmulatorCore_init =
     \<lparr>machine = None, m_initialized = False, m_gameLoaded = False, m_entryPoint = 0,
      m_gamePath = [], m_emuState = EmuIdle, m_cpuRunning = False, core_log = []\<rparr>"

text \<open>\<^verbatim>\<open>initialize\<close>. \<open>alloc_ok\<close> says whether the host grants the arena: if not, the
  constructor of the memory throws. A granted arena is zero-filled. The handler installed
  into the CPU is the closure that calls \<^verbatim>\<open>dispatch\<close> on the global dispatcher, here the
  freshly constructed one.\<close>

definition initialize :: "bool \<Rightarrow> WeaR_EmulatorCore \<Rightarrow> exn + bool \<times> WeaR_EmulatorCore" where
  "initialize alloc_ok c =
     (if m_initialized c then Inr (True, c)
      else
        (let c1 = setState EmuBooting (core_logmsg (CoreText ''Initializing EmulatorCore...'') c)
         in if \<not> alloc_ok then Inl StdException
            else
              (let m = \<lparr>cpu = WeaR_Cpu_init\<lparr>m_syscallHandler := Some dispatch\<rparr>,
                        memory = \<lparr>m_memory = Some (\<lambda>_. 0)\<rparr>,
                        sys = WeaR_Syscalls_init\<rparr>;
                   c2 = core_logmsg (CoreText ''HLE modules loaded'') (c1\<lparr>machine := Some m\<rparr>);
                   c3 = setState EmuIdle (c2\<lparr>m_initialized := True\<rparr>)
               in Inr (True, core_logmsg (CoreText ''EmulatorCore initialized successfully'') c3))))"

definition loadInternalBios :: "WeaR_EmulatorCore \<Rightarrow> exn + u64 \<times> WeaR_EmulatorCore" where
  "loadInternalBios c =
     (case machine c of
        None \<Rightarrow> Inr (0, core_logmsg (CoreText ''Cannot load BIOS: not initialized'') c)
      | Some m \<Rightarrow>
          if \<not> m_initialized c
          then Inr (0, core_logmsg (CoreText ''Cannot load BIOS: not initialized'') c)
          else
            (let c1 = setState EmuBooting (core_logmsg (CoreText ''Loading Internal BIOS...'') c)
             in case load (memory m) (ctx_of m) of
                  Inl e \<Rightarrow> Inl e
                | Inr (entry, mem', ctx') \<Rightarrow>
                    (let c2 = c1\<lparr>machine := Some ((with_ctx (\<lambda>_. ctx') m)\<lparr>memory := mem'\<rparr>),
                                 m_entryPoint := entry, m_gamePath := ''[Internal BIOS]'',
                                 m_gameLoaded := True\<rparr>
                     in Inr (entry, setState EmuIdle (core_logmsg (CoreBiosLoaded entry) c2)))))"

text \<open>\<^verbatim>\<open>run\<close>, up to the start of the CPU thread, whose body is \<open>cpuThreadMain_loop\<close>.\<close>

definition run :: "WeaR_EmulatorCore \<Rightarrow> bool \<times> WeaR_EmulatorCore" where
  "run c =
     (if m_emuState c \<noteq> EmuIdle \<and> m_emuState c \<noteq> EmuPaused then (False, c)
      else if \<not> m_gameLoaded c then (False, core_logmsg (CoreText ''Cannot run: no game loaded'') c)
      else
        (let c1 = setState EmuRunning (core_logmsg (CoreText ''Starting emulation...'') c)
         in if \<not> m_cpuRunning c1 then (True, c1\<lparr>m_cpuRunning := True\<rparr>)
            else (True, c1\<lparr>machine := map_option (\<lambda>m. m\<lparr>cpu := cpu_resume (cpu m)\<rparr>) (machine c1)\<rparr>)))"

text \<open>The first \<open>n\<close> iterations of the \<^verbatim>\<open>while\<close> loop of \<^verbatim>\<open>cpuThreadMain\<close>, while no other
  thread changes \<^verbatim>\<open>m_cpuRunning\<close> or the emulator state: every iteration calls \<^verbatim>\<open>step\<close> unless
  the CPU is paused, and drops what \<^verbatim>\<open>step\<close> returns. \<open>None\<close>: a step did not return.\<close>

fun cpuThreadMain_loop :: "nat \<Rightarrow> bool \<Rightarrow> EmuState \<Rightarrow> Machine \<Rightarrow> Machine option" where
  "cpuThreadMain_loop 0 running st m = Some m"
| "cpuThreadMain_loop (Suc n) running st m =
     (if \<not> (running \<and> st \<noteq> EmuStopping) then Some m
      else if m_state (cpu m) = Paused then cpuThreadMain_loop n running st m
      else (case step m of
              None \<Rightarrow> None
            | Some r \<Rightarrow> cpuThreadMain_loop n running st (snd r)))"

section \<open>Virtual file system (HLE/FileSystem/WeaR_VFS.h, WeaR_VFS.cpp)\<close>

text \<open>The error codes of \<^verbatim>\<open>PS4Error\<close> and the flags of \<^verbatim>\<open>OpenFlags\<close>, as 32-bit integers.\<close>

definition SCE_OK :: u32 where "SCE_OK = 0"
definition SCE_ERROR_ENOENT :: u32 where "SCE_ERROR_ENOENT = 0x80020002"
definition SCE_ERROR_EACCES :: u32 where "SCE_ERROR_EACCES = 0x80020013"
definition SCE_ERROR_EBADF :: u32 where "SCE_ERROR_EBADF = 0x80020009"

definition O_RDONLY :: u32 where "O_RDONLY = 0x0000"
definition O_WRONLY :: u32 where "O_WRONLY = 0x0001"
definition O_RDWR :: u32 where "O_RDWR = 0x0002"
definition O_CREAT :: u32 where "O_CREAT = 0x0200"
definition O_TRUNC :: u32 where "O_TRUNC = 0x0400"
definition O_APPEND :: u32 where "O_APPEND = 0x0008"
definition O_DIRECTORY :: u32 where "O_DIRECTORY = 0x00020000"

lemmas vfs_consts =
  SCE_OK_def SCE_ERROR_ENOENT_def SCE_ERROR_EACCES_def SCE_ERROR_EBADF_def
  O_RDONLY_def O_WRONLY_def O_RDWR_def O_CREAT_def O_TRUNC_def O_APPEND_def O_DIRECTORY_def

text \<open>The bits of \<^verbatim>\<open>std::ios_base::openmode\<close> the file system sets.\<close>

datatype openmode = ios_binary | ios_in | ios_out | ios_trunc | ios_app

text \<open>The host, as the file system sees it through \<^verbatim>\<open>std::filesystem\<close> and
  \<^verbatim>\<open>std::fstream\<close>. These library functions are not part of the repository and are
  parameters of the model: \<open>path_append\<close> is \<^verbatim>\<open>operator/\<close>, \<open>path_elems\<close> the sequence a path
  iterator runs through, \<open>fs_canonical\<close> and \<open>fs_weakly_canonical\<close> return \<open>None\<close> where the
  library throws, and \<open>fs_open\<close> says whether a stream opened on a path in a mode is open.
  A path is its string; the empty string is the empty path.\<close>

record host_fs =
  path_append :: "string \<Rightarrow> string \<Rightarrow> string"
  path_elems :: "string \<Rightarrow> string list"
  fs_canonical :: "string \<Rightarrow> string option"
  fs_weakly_canonical :: "string \<Rightarrow> string option"
  fs_exists :: "string \<Rightarrow> bool"
  fs_is_directory :: "string \<Rightarrow> bool"
  fs_open :: "string \<Rightarrow> openmode set \<Rightarrow> bool"

record FileHandle =
  has_stream :: bool
  hostPath :: string
  flags :: u32
  isDirectory :: bool

text \<open>What the file system prints to the console.\<close>

datatype vfs_msg =
  VfsMountFailed string
  | VfsMounted string string
  | VfsPathEscape string
  | VfsOpenFailed string
  | VfsOpenedDirectory string u32
  | VfsOpened string u32

text \<open>\<^verbatim>\<open>WeaR_VFS\<close>, seen from the one thread that calls it. The mount table is the ordered
  map as a list of its entries in iteration order; \<open>m_mutex\<close> says whether the calling thread
  owns the \<^verbatim>\<open>std::mutex\<close>.\<close>

record WeaR_VFS =
  m_mountPoints :: "(string \<times> string) list"
  m_openFiles :: "u32 \<Rightarrow> FileHandle option"
  m_nextFd :: u32
  m_totalBytesRead :: u64
  m_totalBytesWritten :: u64
  m_mutex :: bool
  vfs_console :: "vfs_msg list"

definition WeaR_VFS_init :: WeaR_VFS where
  "WeaR_VFS_init =
     \<lparr>m_mountPoints = [], m_openFiles = Map.empty, m_nextFd = 10, m_totalBytesRead = 0,
      m_totalBytesWritten = 0, m_mutex = False, vfs_console = []\<rparr>"

text \<open>\<^verbatim>\<open>std::lock_guard<std::mutex> lock(m_mutex)\<close>. The mutex is not recursive: locking it
  in the thread that owns it has no defined behaviour (the thread waits for itself, or the
  runtime throws \<^verbatim>\<open>std::system_error\<close>), and the function that does so has no result, which
  is \<open>None\<close>. \<open>unlock\<close> is the guard's destructor at the return.\<close>

definition lock_guard :: "WeaR_VFS \<Rightarrow> WeaR_VFS option" where
  "lock_guard v = (if m_mutex v then None else Some (v\<lparr>m_mutex := True\<rparr>))"

definition unlock :: "WeaR_VFS \<Rightarrow> WeaR_VFS" where
  "unlock v = v\<lparr>m_mutex := False\<rparr>"

definition vfs_print :: "vfs_msg \<Rightarrow> WeaR_VFS \<Rightarrow> WeaR_VFS" where
  "vfs_print msg v = v\<lparr>vfs_console := vfs_console v @ [msg]\<rparr>"

definition normalizePath :: "string \<Rightarrow> string" where
  "normalizePath path =
     (let result = map (\<lambda>c. if c = CHR 0x5C then CHR ''/'' else c) path;
          result = rev (dropWhile (\<lambda>c. c = CHR ''/'') (rev result))
      in if result = [] \<or> hd result \<noteq> CHR ''/'' then CHR ''/'' # result else result)"

text \<open>The loop of \<^verbatim>\<open>resolvePath\<close> over the mount table: the longest mount point that the
  normalised path starts with, and its host path.\<close>

definition best_mount :: "(string \<times> string) list \<Rightarrow> string \<Rightarrow> string \<times> string" where
  "best_mount mounts normalized =
     fold (\<lambda>(mountPoint, host) (bestMatch, bestHost).
             if prefix mountPoint normalized \<and> length mountPoint > length bestMatch
             then (mountPoint, host) else (bestMatch, bestHost))
       mounts ([], [])"

text \<open>\<^verbatim>\<open>isPathSafe\<close>: the loop runs over every mount, and any exception makes the answer
  \<open>False\<close>.\<close>

fun path_within_any :: "host_fs \<Rightarrow> string \<Rightarrow> (string \<times> string) list \<Rightarrow> bool" where
  "path_within_any fs canonical [] = False"
| "path_within_any fs canonical ((mount, host) # rest) =
     (case fs_canonical fs host of
        None \<Rightarrow> False
      | Some hostCanonical \<Rightarrow>
          if prefix (path_elems fs hostCanonical) (path_elems fs canonical) then True
          else path_within_any fs canonical rest)"

definition isPathSafe :: "host_fs \<Rightarrow> WeaR_VFS \<Rightarrow> string \<Rightarrow> bool" where
  "isPathSafe fs v path =
     (case fs_weakly_canonical fs path of
        None \<Rightarrow> False
      | Some canonical \<Rightarrow> path_within_any fs canonical (m_mountPoints v))"

text \<open>\<^verbatim>\<open>resolvePath\<close>: the resolved host path, empty on failure, and the file system with
  the console line of a rejected path. It takes the mutex for the length of the call.\<close>

definition resolvePath :: "host_fs \<Rightarrow> WeaR_VFS \<Rightarrow> string \<Rightarrow> (string \<times> WeaR_VFS) option" where
  "resolvePath fs v ps4Path =
     (case lock_guard v of
        None \<Rightarrow> None
      | Some v \<Rightarrow>
          (let normalized = normalizePath ps4Path;
               (bestMatch, bestHost) = best_mount (m_mountPoints v) normalized
           in if bestMatch = [] then Some ([], unlock v)
              else
                (let relativePath = drop (length bestMatch) normalized;
                     relativePath = (if relativePath \<noteq> [] \<and> hd relativePath = CHR ''/''
                                     then drop 1 relativePath else relativePath);
                     resolved = path_append fs bestHost relativePath
                 in if \<not> isPathSafe fs v resolved
                    then Some ([], unlock (vfs_print (VfsPathEscape ps4Path) v))
                    else Some (resolved, unlock v))))"

definition allocateFd :: "WeaR_VFS \<Rightarrow> u32 \<times> WeaR_VFS" where
  "allocateFd v = (m_nextFd v, v\<lparr>m_nextFd := m_nextFd v + 1\<rparr>)"

text \<open>The open mode \<^verbatim>\<open>openFile\<close> computes from the flags.\<close>

definition open_mode :: "u32 \<Rightarrow> openmode set" where
  "open_mode fl =
     {ios_binary}
     \<union> (if fl AND O_RDWR = O_RDWR then {ios_in, ios_out}
        else if fl AND O_WRONLY \<noteq> 0 then {ios_out}
        else {ios_in})
     \<union> (if fl AND O_CREAT \<noteq> 0 then {ios_out} else {})
     \<union> (if fl AND O_TRUNC \<noteq> 0 then {ios_trunc} else {})
     \<union> (if fl AND O_APPEND \<noteq> 0 then {ios_app} else {})"

text \<open>\<^verbatim>\<open>openFile\<close>: the descriptor or error code returned, and the file system afterwards.
  It takes the mutex and, holding it, calls \<^verbatim>\<open>resolvePath\<close>. What opening a stream does to
  the host's files is outside the model.\<close>

definition openFile ::
  "host_fs \<Rightarrow> WeaR_VFS \<Rightarrow> string \<Rightarrow> u32 \<Rightarrow> u32 \<Rightarrow> (u32 \<times> WeaR_VFS) option" where
  "openFile fs v ps4Path fl mode =
     (case lock_guard v of
        None \<Rightarrow> None
      | Some v0 \<Rightarrow>
          (case resolvePath fs v0 ps4Path of
             None \<Rightarrow> None
           | Some r \<Rightarrow>
               Some
                (let (hostPath, v1) = r
                 in
                 if hostPath = []
                 then (SCE_ERROR_ENOENT, unlock (vfs_print (VfsOpenFailed ps4Path) v1))
                 else if fl AND O_DIRECTORY \<noteq> 0 then
                   (if \<not> fs_is_directory fs hostPath then (SCE_ERROR_ENOENT, unlock v1)
                    else
                      (let handle = \<lparr>has_stream = False, hostPath = hostPath, flags = fl,
                                     isDirectory = True\<rparr>;
                           (fd, v2) = allocateFd v1;
                           v3 = v2\<lparr>m_openFiles := (m_openFiles v2)(fd \<mapsto> handle)\<rparr>
                       in (fd, unlock (vfs_print (VfsOpenedDirectory ps4Path fd) v3))))
                 else if fl AND O_CREAT = 0 \<and> \<not> fs_exists fs hostPath
                 then (SCE_ERROR_ENOENT, unlock v1)
                 else if \<not> fs_open fs hostPath (open_mode fl) then (SCE_ERROR_EACCES, unlock v1)
                 else
                   (let handle = \<lparr>has_stream = True, hostPath = hostPath, flags = fl,
                                  isDirectory = False\<rparr>;
                        (fd, v2) = allocateFd v1;
                        v3 = v2\<lparr>m_openFiles := (m_openFiles v2)(fd \<mapsto> handle)\<rparr>
                    in (fd, unlock (vfs_print (VfsOpened ps4Path fd) v3))))))"

text \<open>\<^verbatim>\<open>fileExists\<close> calls \<^verbatim>\<open>resolvePath\<close> without taking the mutex itself.\<close>

definition fileExists :: "host_fs \<Rightarrow> WeaR_VFS \<Rightarrow> string \<Rightarrow> (bool \<times> WeaR_VFS) option" where
  "fileExists fs v ps4Path =
     (case resolvePath fs v ps4Path of
        None \<Rightarrow> None
      | Some r \<Rightarrow> (let (hostPath, v1) = r in Some (hostPath \<noteq> [] \<and> fs_exists fs hostPath, v1)))"

subsection \<open>A POSIX host without symbolic links\<close>

text \<open>A concrete host for the scenarios: absolute POSIX paths, no symbolic links, so that the
  canonical form of a path that exists is its lexical normal form. Relative paths are taken
  from the root directory, and empty path elements (doubled or trailing separators) are
  dropped.\<close>

fun split_slash :: "string \<Rightarrow> string \<Rightarrow> string list" where
  "split_slash acc [] = (if acc = [] then [] else [rev acc])"
| "split_slash acc (c # cs) =
     (if c = CHR ''/'' then (if acc = [] then [] else [rev acc]) @ split_slash [] cs
      else split_slash (c # acc) cs)"

fun normal_names :: "string list \<Rightarrow> string list \<Rightarrow> string list" where
  "normal_names stack [] = rev stack"
| "normal_names stack (n # ns) =
     (if n = ''.'' then normal_names stack ns
      else if n = ''..'' then normal_names (tl stack) ns
      else normal_names (n # stack) ns)"

fun join_slash :: "string list \<Rightarrow> string" where
  "join_slash [] = []"
| "join_slash (n # ns) = CHR ''/'' # n @ join_slash ns"

definition posix_normal :: "string \<Rightarrow> string" where
  "posix_normal p =
     (let names = normal_names [] (split_slash [] p)
      in if names = [] then ''/'' else join_slash names)"

definition posix_append :: "string \<Rightarrow> string \<Rightarrow> string" where
  "posix_append p q =
     (if q \<noteq> [] \<and> hd q = CHR ''/'' then q
      else if p = [] then q
      else if last p = CHR ''/'' then p @ q
      else p @ ''/'' @ q)"

definition posix_elems :: "string \<Rightarrow> string list" where
  "posix_elems p = (if p \<noteq> [] \<and> hd p = CHR ''/'' then [''/''] else []) @ split_slash [] p"

text \<open>The files of the host are given by two predicates on normal forms: \<open>ex\<close> says which
  exist and \<open>dir\<close> which of them are directories. The host resolves a path name by name:
  each name, \<^verbatim>\<open>..\<close> included, is looked up in what the names before it lead to, which must
  be an existing directory, and the path exists if what all its names lead to does.\<close>

definition posix_path :: "string list \<Rightarrow> string" where
  "posix_path stack = (if stack = [] then ''/'' else join_slash (rev stack))"

fun posix_walk :: "(string \<Rightarrow> bool) \<Rightarrow> (string \<Rightarrow> bool) \<Rightarrow> string list \<Rightarrow> string list \<Rightarrow> bool" where
  "posix_walk ex dir stack [] = ex (posix_path stack)"
| "posix_walk ex dir stack (n # ns) =
     (ex (posix_path stack) \<and> dir (posix_path stack) \<and>
      (if n = ''.'' then posix_walk ex dir stack ns
       else if n = ''..'' then posix_walk ex dir (tl stack) ns
       else posix_walk ex dir (n # stack) ns))"

definition posix_exists :: "(string \<Rightarrow> bool) \<Rightarrow> (string \<Rightarrow> bool) \<Rightarrow> string \<Rightarrow> bool" where
  "posix_exists ex dir p = posix_walk ex dir [] (split_slash [] p)"

text \<open>The host with these files. \<^verbatim>\<open>canonical\<close> throws on a path that does not exist;
  \<^verbatim>\<open>weakly_canonical\<close> normalises what follows the existing part of the path lexically, and
  so returns the normal form of the whole. A stream opens on the existing files that are not
  directories, and no file is created.\<close>

definition posix_host :: "(string \<Rightarrow> bool) \<Rightarrow> (string \<Rightarrow> bool) \<Rightarrow> host_fs" where
  "posix_host ex dir =
     \<lparr>path_append = posix_append,
      path_elems = posix_elems,
      fs_canonical = (\<lambda>p. if posix_exists ex dir p then Some (posix_normal p) else None),
      fs_weakly_canonical = (\<lambda>p. Some (posix_normal p)),
      fs_exists = (\<lambda>p. posix_exists ex dir p),
      fs_is_directory = (\<lambda>p. posix_exists ex dir p \<and> dir (posix_normal p)),
      fs_open = (\<lambda>p mode. posix_exists ex dir p \<and> \<not> dir (posix_normal p))\<rparr>"

text \<open>The file system with \<^verbatim>\<open>/app0\<close> mounted on \<^verbatim>\<open>/tmp/game\<close> and no call in progress,
  whatever its open files and next descriptor are; and the one with a second mount,
  \<^verbatim>\<open>/data\<close> on \<^verbatim>\<open>/tmp/other\<close>.\<close>

definition app0_vfs :: "WeaR_VFS \<Rightarrow> WeaR_VFS" where
  "app0_vfs v = v\<lparr>m_mountPoints := [(''/app0'', ''/tmp/game'')], m_mutex := False\<rparr>"

definition two_mounts_vfs :: WeaR_VFS where
  "two_mounts_vfs =
     WeaR_VFS_init\<lparr>m_mountPoints := [(''/app0'', ''/tmp/game''), (''/data'', ''/tmp/other'')]\<rparr>"

section \<open>Package loader (Loader/WeaR_PkgLoader.h, WeaR_PkgLoader.cpp)\<close>

definition PKG_ENTRY_ID_EBOOT :: u32 where "PKG_ENTRY_ID_EBOOT = 0x1000"

record PkgEntry =
  entry_id :: u32
  filenameOffset :: u32
  flags1 :: u32
  flags2 :: u32
  dataOffset :: u32
  dataSize :: u32
  padding :: u64

text \<open>The messages of the \<^verbatim>\<open>std::unexpected\<close> results, one constructor per format string.\<close>

datatype pkg_error =
  NoPkgLoaded
  | EntryNotFound u32
  | CannotGetFileSize
  | OffsetBeyondFile u32 nat
  | ZeroSize
  | SizeTooLarge nat
  | FailedToReopen
  | NoPkgOrNoEntries
  | NoValidEntries

text \<open>The loader after \<^verbatim>\<open>loadPackage\<close>: whether a package is loaded and its entry table,
  already converted from big-endian. The package file on the host is \<open>None\<close> if it cannot be
  accessed and otherwise its bytes; file sizes are natural numbers.\<close>

record WeaR_PkgLoader =
  m_loaded :: bool
  m_entries :: "PkgEntry list"

definition two_GiB :: nat where
  "two_GiB = 2 * 1024 * 1024 * 1024"

text \<open>\<^verbatim>\<open>extractEntry\<close>. After the checks the stream is positioned at the offset and
  \<open>finalSize\<close> bytes are read, which the file has.\<close>

definition extractEntry :: "WeaR_PkgLoader \<Rightarrow> u8 list option \<Rightarrow> u32 \<Rightarrow> pkg_error + u8 list" where
  "extractEntry ld file entryId =
     (if \<not> m_loaded ld then Inl NoPkgLoaded
      else
        (case find (\<lambda>e. entry_id e = entryId) (m_entries ld) of
           None \<Rightarrow> Inl (EntryNotFound entryId)
         | Some targetEntry \<Rightarrow>
             (case file of
                None \<Rightarrow> Inl CannotGetFileSize
              | Some bytes \<Rightarrow>
                  (let fileSize = length bytes
                   in if unat (dataOffset targetEntry) \<ge> fileSize
                      then Inl (OffsetBeyondFile (dataOffset targetEntry) fileSize)
                      else
                        (let maxReadable = fileSize - unat (dataOffset targetEntry);
                             requestedSize = unat (dataSize targetEntry);
                             finalSize = (if requestedSize > maxReadable then maxReadable
                                          else requestedSize)
                         in if requestedSize = 0 then Inl ZeroSize
                            else if finalSize > two_GiB then Inl (SizeTooLarge finalSize)
                            else Inr (take finalSize (drop (unat (dataOffset targetEntry)) bytes)))))))"

text \<open>The fallback loop of \<^verbatim>\<open>extractEboot\<close>: the entry pointer and the maximum so far.\<close>

definition largest_valid :: "nat \<Rightarrow> PkgEntry list \<Rightarrow> PkgEntry option \<times> nat" where
  "largest_valid fileSize entries =
     fold (\<lambda>entry (largestEntry, maxSize).
             if unat (dataOffset entry) \<ge> fileSize then (largestEntry, maxSize)
             else
               (let maxReadable = fileSize - unat (dataOffset entry);
                    effectiveSize = min (unat (dataSize entry)) maxReadable
                in if effectiveSize > 0 \<and> effectiveSize > maxSize
                   then (Some entry, effectiveSize) else (largestEntry, maxSize)))
       entries (None, 0)"

definition extractEboot :: "WeaR_PkgLoader \<Rightarrow> u8 list option \<Rightarrow> pkg_error + u8 list" where
  "extractEboot ld file =
     (case extractEntry ld file PKG_ENTRY_ID_EBOOT of
        Inr data \<Rightarrow> Inr data
      | Inl err \<Rightarrow>
          if \<not> m_loaded ld \<or> m_entries ld = [] then Inl NoPkgOrNoEntries
          else
            (case file of
               None \<Rightarrow> Inl CannotGetFileSize
             | Some bytes \<Rightarrow>
                 (case fst (largest_valid (length bytes) (m_entries ld)) of
                    None \<Rightarrow> Inl NoValidEntries
                  | Some largestEntry \<Rightarrow> extractEntry ld file (entry_id largestEntry))))"

text \<open>The effective size of the specification: \<open>min(claimed_size, file_size - offset)\<close>.\<close>

definition effective :: "nat \<Rightarrow> PkgEntry \<Rightarrow> nat" where
  "effective fileSize e = min (unat (dataSize e)) (fileSize - unat (dataOffset e))"

definition mk_entry :: "u32 \<Rightarrow> u32 \<Rightarrow> u32 \<Rightarrow> PkgEntry" where
  "mk_entry i off sz =
     \<lparr>entry_id = i, filenameOffset = 0, flags1 = 0, flags2 = 0, dataOffset = off, dataSize = sz,
      padding = 0\<rparr>"

text \<open>An entry the fallback loop does not skip: its offset lies inside the file.\<close>

definition valid_entry :: "nat \<Rightarrow> PkgEntry \<Rightarrow> bool" where
  "valid_entry fileSize e \<longleftrightarrow> unat (dataOffset e) < fileSize"

section \<open>Concrete machines\<close>

text \<open>A machine as \<^verbatim>\<open>initialize\<close> wires it, with \<open>bytes\<close> stored from physical offset \<open>p\<close>
  of a zero-filled arena and the instruction pointer at \<open>rip\<close>.\<close>

definition machine_with :: "u64 \<Rightarrow> u8 list \<Rightarrow> u64 \<Rightarrow> Machine" where
  "machine_with p bytes rip =
     \<lparr>cpu = WeaR_Cpu_init\<lparr>m_context := WeaR_Context_reset\<lparr>RIP := rip\<rparr>,
                         m_syscallHandler := Some dispatch\<rparr>,
      memory = \<lparr>m_memory = Some (store_bytes (\<lambda>_. 0) p bytes)\<rparr>,
      sys = WeaR_Syscalls_init\<rparr>"

text \<open>\<^verbatim>\<open>48 BE 00 02 40 00 00 00 00 00\<close> at guest address \<open>0x400000\<close>: in x86-64,
  \<open>MOV RSI, 0x400200\<close>.\<close>

definition mov_rsi_machine :: Machine where
  "mov_rsi_machine = machine_with 0 [0x48, 0xBE, 0x00, 0x02, 0x40, 0, 0, 0, 0, 0] 0x400000"

text \<open>\<^verbatim>\<open>F4 90\<close> at guest address \<open>0x400000\<close>: HLT, then NOP.\<close>

definition halt_machine :: Machine where
  "halt_machine = machine_with 0 [0xF4, 0x90] 0x400000"

text \<open>\<^verbatim>\<open>48 B8\<close> in the last three bytes of the arena but one, then \<^verbatim>\<open>90\<close> in the last byte:
  the 8-byte immediate of the MOV crosses the end of the arena.\<close>

definition fault_machine :: Machine where
  "fault_machine = machine_with 0x1FFFFFFFD [0x48, 0xB8, 0x90] 0x2003FFFFD"

section \<open>The run of the internal BIOS\<close>

text \<open>The program bytes of the internal BIOS as the interface description lists them, and
  the arena that holds them and the boot message.\<close>

definition bios_image :: "u8 list" where
  "bios_image =
     [0x48, 0xC7, 0xC0, 0x04, 0x00, 0x00, 0x00,
      0x48, 0xC7, 0xC7, 0x01, 0x00, 0x00, 0x00,
      0x48, 0xBE, 0x00, 0x02, 0x40, 0x00, 0x00, 0x00, 0x00, 0x00,
      0x48, 0xC7, 0xC2, 0x1C, 0x00, 0x00, 0x00,
      0x0F, 0x05,
      0x48, 0xC7, 0xC0, 0xEF, 0x01, 0x00, 0x00,
      0x0F, 0x05,
      0x48, 0xC7, 0xC0, 0x3B, 0x02, 0x00, 0x00,
      0x48, 0xC7, 0xC7, 0x00, 0x00, 0x00, 0x00,
      0x48, 0xBE, 0x00, 0x03, 0x40, 0x00, 0x00, 0x00, 0x00, 0x00,
      0x0F, 0x05,
      0xF3, 0x90,
      0xE9, 0xDF, 0xFF, 0xFF, 0xFF]"

definition bios_arena :: "u64 \<Rightarrow> u8" where
  "bios_arena = store_bytes (store_bytes (\<lambda>_. 0) 0x200 (bootMsg @ [0])) 0 bios_image"

text \<open>\<^verbatim>\<open>initialize\<close>, \<^verbatim>\<open>loadInternalBios\<close> and \<^verbatim>\<open>run\<close> on a fresh core: the entry point returned
  and the core as the CPU thread finds it.\<close>

definition bios_boot :: "(u64 \<times> WeaR_EmulatorCore) option" where
  "bios_boot =
     (case initialize True WeaR_EmulatorCore_init of
        Inl e \<Rightarrow> None
      | Inr (ok, c1) \<Rightarrow>
          (case loadInternalBios c1 of
             Inl e \<Rightarrow> None
           | Inr (entry, c2) \<Rightarrow> Some (entry, snd (run c2))))"

text \<open>The instruction pointers the interpreter reaches on this program, and what holds of the
  machine whenever the CPU thread is about to step.\<close>

definition bios_pcs :: "u64 list" where
  "bios_pcs = map (\<lambda>k. 0x400000 + k)
     [0, 2, 3, 4, 5, 6, 7, 9, 10, 11, 12, 13, 14, 24, 26, 27, 28, 29, 30, 31, 33, 35, 36, 37, 38,
      39, 40, 42, 44, 45, 46, 47, 48, 49, 51, 52, 53, 54, 55, 56, 66, 68, 69, 70]"

definition bios_inv :: "Machine \<Rightarrow> bool" where
  "bios_inv m \<longleftrightarrow>
     memory m = \<lparr>m_memory = Some bios_arena\<rparr>
     \<and> m_syscallHandler (cpu m) = Some dispatch
     \<and> m_handlers (sys m) 0 = None
     \<and> m_state (cpu m) \<noteq> Paused
     \<and> length (GPR (ctx_of m)) = 16
     \<and> get_reg (ctx_of m) RAX = 0
     \<and> RIP (ctx_of m) \<in> set bios_pcs
     \<and> set (sys_log (hle (sys m))) \<subseteq> {LogUnimplemented 0}"

section \<open>Concrete command buffers\<close>

text \<open>The three words \<open>0xC0012D00, 128, 0\<close> at guest address \<open>0x500000\<close>: a Type-3 header with
  opcode \<open>0x2D\<close> and count field 1, and its two payload words.\<close>

definition draw_mem :: WeaR_Memory where
  "draw_mem = \<lparr>m_memory = Some (store_bytes (\<lambda>_. 0) 0x100000
                  (le_bytes 4 (0xC0012D00 :: u32) @ le_bytes 4 (128 :: u32) @ le_bytes 4 (0 :: u32)))\<rparr>"



section \<open>Properties of guest memory\<close>

lemma unat_plus1: "unat (p::u64) + Suc n < 2 ^ 64 \<Longrightarrow> unat (p + 1) = unat p + 1"
  by (simp add: unat_word_ariths)

lemma store_bytes_other:
  "unat q < unat p \<Longrightarrow> unat p + length bs < 2 ^ 64 \<Longrightarrow> store_bytes a p bs q = a q"
proof (induction bs arbitrary: a p)
  case Nil
  then show ?case by simp
next
  case (Cons b bs)
  have s: "unat (p + 1) = unat p + 1"
    using Cons.prems(2) by (intro unat_plus1[of p "length bs"]) simp
  have "store_bytes (a(p := b)) (p + 1) bs q = (a(p := b)) q"
    using Cons.prems s by (intro Cons.IH) auto
  moreover have "q \<noteq> p" using Cons.prems(1) by auto
  ultimately show ?case by simp
qed

lemma load_store_bytes:
  "unat p + length bs < 2 ^ 64 \<Longrightarrow> load_bytes (store_bytes a p bs) p (length bs) = bs"
proof (induction bs arbitrary: a p)
  case Nil
  then show ?case by simp
next
  case (Cons b bs)
  have s: "unat (p + 1) = unat p + 1"
    using Cons.prems by (intro unat_plus1[of p "length bs"]) simp
  have h: "store_bytes (a(p := b)) (p + 1) bs p = (a(p := b)) p"
    using Cons.prems s by (intro store_bytes_other) auto
  have t: "load_bytes (store_bytes (a(p := b)) (p + 1) bs) (p + 1) (length bs) = bs"
    using Cons.prems s by (intro Cons.IH) auto
  show ?case using h t by simp
qed

lemma translate_le: "unat (translateAddress a) \<le> unat a"
proof -
  have 1: "unat (x AND PHYSICAL_MASK) \<le> unat x" for x :: u64
    by (simp add: word_and_le2 word_le_nat_alt[symmetric])
  show ?thesis
  proof (cases "a \<ge> USER_BASE")
    case True
    have "unat (a - USER_BASE) \<le> unat a"
      using True by (simp add: unat_sub word_le_nat_alt)
    with 1[of "a - USER_BASE"] True show ?thesis
      by (simp add: translateAddress_def)
  next
    case False
    with 1[of a] show ?thesis by (simp add: translateAddress_def)
  qed
qed

lemma validate_ok:
  assumes "m_memory mem = Some arena" "unat p + n \<le> unat MEMORY_SIZE"
  shows "validateAccess mem p (of_nat n) = Inr ()"
proof -
  have n: "n < 2 ^ 64" using assms(2) by (simp add: MEMORY_SIZE_def)
  have un: "unat (of_nat n :: u64) = n" using n by (simp add: unat_of_nat)
  have "unat (p + of_nat n) = unat p + n"
    using assms(2) un by (simp add: unat_word_ariths MEMORY_SIZE_def)
  then have "\<not> p + of_nat n > MEMORY_SIZE"
    using assms(2) by (simp add: word_less_nat_alt)
  then show ?thesis using assms(1) by (simp add: validateAccess_def)
qed

text \<open>Claim C10. Block round trip through guest memory: for every byte sequence \<open>b\<close> and
  every guest address \<open>a\<close> whose translated offset plus \<open>|b|\<close> stays within the 8 GiB arena
  (in particular whenever \<open>a + |b|\<close> does), \<open>writeBlock\<close> of \<open>b\<close> at \<open>a\<close> followed by
  \<open>readBlock\<close> of \<open>|b|\<close> bytes at \<open>a\<close> puts exactly \<open>b\<close> into the destination buffer.\<close>

theorem block_roundtrip:
  assumes init: "m_memory mem = Some arena"
      and fits: "unat (translateAddress a) + length b \<le> unat MEMORY_SIZE
                 \<or> unat a + length b \<le> unat MEMORY_SIZE"
      and dest: "length b \<le> length d"
  shows "\<exists>mem'. writeBlock mem a (Some b) (of_nat (length b)) = Inr mem'
           \<and> readBlock mem' a (Some d) (of_nat (length b)) = Inr (Some (b @ drop (length b) d))"
proof -
  let ?p = "translateAddress a"
  let ?n = "length b"
  have bound: "unat ?p + ?n \<le> unat MEMORY_SIZE"
    using fits translate_le[of a] by auto
  have n: "?n < 2 ^ 64" using bound by (simp add: MEMORY_SIZE_def)
  have un: "unat (of_nat ?n :: u64) = ?n" using n by (simp add: unat_of_nat)
  show ?thesis
  proof (cases "b = []")
    case True
    then show ?thesis by (simp add: writeBlock_def readBlock_def)
  next
    case False
    then have nz: "(of_nat ?n :: u64) \<noteq> 0"
      using un by (metis length_0_conv unat_0)
    let ?mem' = "mem\<lparr>m_memory := Some (store_bytes arena ?p b)\<rparr>"
    have w: "writeBlock mem a (Some b) (of_nat ?n) = Inr ?mem'"
      using nz init validate_ok[OF init bound] un by (simp add: writeBlock_def)
    have v': "validateAccess ?mem' ?p (of_nat ?n) = Inr ()"
      by (rule validate_ok[OF _ bound]) simp
    have ls: "load_bytes (store_bytes arena ?p b) ?p ?n = b"
      using bound by (intro load_store_bytes) (simp add: MEMORY_SIZE_def)
    have r: "readBlock ?mem' a (Some d) (of_nat ?n) = Inr (Some (b @ drop ?n d))"
      using nz v' un ls by (simp add: readBlock_def)
    show ?thesis using w r by blast
  qed
qed

theorem block_roundtrip_witness:
  "m_memory \<lparr>m_memory = Some (\<lambda>_. 0)\<rparr> = Some (\<lambda>_. 0)
   \<and> unat (translateAddress 0x400010) + length [1, 2, 3 :: u8] \<le> unat MEMORY_SIZE
   \<and> length [1, 2, 3 :: u8] \<le> length [9, 9, 9, 9 :: u8]
   \<and> (\<exists>mem'. writeBlock \<lparr>m_memory = Some (\<lambda>_. 0)\<rparr> 0x400010 (Some [1, 2, 3]) 3 = Inr mem'
         \<and> readBlock mem' 0x400010 (Some [9, 9, 9, 9]) 3 = Inr (Some [1, 2, 3, 9]))"
proof -
  have h1: "m_memory \<lparr>m_memory = Some (\<lambda>_. 0)\<rparr> = Some (\<lambda>_. 0)" by simp
  have h2: "unat (translateAddress 0x400010) + length [1, 2, 3 :: u8] \<le> unat MEMORY_SIZE"
    by (simp add: translateAddress_def USER_BASE_def PHYSICAL_MASK_def MEMORY_SIZE_def)
  have h3: "length [1, 2, 3 :: u8] \<le> length [9, 9, 9, 9 :: u8]" by simp
  from block_roundtrip [OF h1 disjI1 [OF h2] h3] h1 h2 h3 show ?thesis by simp
qed

section \<open>Evaluation rules\<close>

lemma load_bytes_numeral [simp]:
  "load_bytes arena p (numeral k) = arena p # load_bytes arena (p + 1) (pred_numeral k)"
  by (simp add: numeral_eq_Suc)

lemma le_bytes_numeral [simp]:
  "le_bytes (numeral k) v = ucast (v AND 0xFF) # le_bytes (pred_numeral k) (drop_bit 8 v)"
  by (simp add: numeral_eq_Suc)

lemmas mem_defs =
  read8_def read16_def read32_def read64_def write8_def write32_def write64_def
  read_bytes_def write_bytes_def translateAddress_def validateAccess_def
  MEMORY_SIZE_def USER_BASE_def PHYSICAL_MASK_def

lemmas cpu_defs =
  step_def step_try_def decode_execute_def fetchByte_def fetchDword_def fetchQword_def
  execNOP_def execRET_def execJMP_rel32_def execCALL_rel32_def execMOV_reg_imm64_def
  execPUSH_reg_def execPOP_reg_def execSYSCALL_def execHLT_def execUnknown_def returning_def
  ctx_of_def with_ctx_def print_def set_state_def set_lastOpcode_def get_reg_def set_reg_def

lemmas scen_defs =
  machine_with_def WeaR_Cpu_init_def cpu_reset_def WeaR_Context_reset_def reg_defs

section \<open>The register file and MOV with an immediate\<close>

text \<open>Claim C1. The claim says that the sixteen registers are indexed in x86-64 encoding
  order, so that \<^verbatim>\<open>48 BE imm64\<close> writes the register the dispatcher reads as its second
  argument (RSI). In the source the named members are declared in the order RAX, RBX, RCX,
  RDX, RSI, RDI, RBP, RSP: the instruction writes array slot 6, which is the member RBP, and
  the member RSI (slot 4), which \<^verbatim>\<open>dispatch\<close> reads, keeps its old value.\<close>

theorem mov_0xBE_writes_member_RBP:
  "\<exists>m'. step mov_rsi_machine = Some (1, m')
     \<and> get_reg (ctx_of m') RSI = 0
     \<and> get_reg (ctx_of m') RBP = 0x400200
     \<and> RIP (ctx_of m') = 0x40000A
     \<and> getRegisterName 6 = ''RBP''"
  by (simp add: mov_rsi_machine_def cpu_defs mem_defs scen_defs getRegisterName_def)

section \<open>Halted and faulted interpreters\<close>

text \<open>Claim C4. The claim says that once the state is Halted or Faulted every further step
  leaves the context unchanged and executes nothing. \<^verbatim>\<open>step\<close> never reads the state, and the
  loop of \<^verbatim>\<open>cpuThreadMain\<close> drops the 0 that \<^verbatim>\<open>step\<close> returns: after HLT the next iteration
  executes the following NOP, and after a memory fault the next iteration executes the byte
  at the instruction pointer, in both cases advancing the instruction pointer while the state
  stays Halted or Faulted. \<^verbatim>\<open>runLoop\<close>, the loop of the interpreter itself, does stop at the
  HLT.\<close>

theorem halted_or_faulted_cpu_keeps_stepping:
  "(\<exists>m1 m2. step halt_machine = Some (0, m1) \<and> m_state (cpu m1) = Halted
       \<and> RIP (ctx_of m1) = 0x400001
       \<and> cpuThreadMain_loop 1 True EmuRunning m1 = Some m2
       \<and> m_state (cpu m2) = Halted \<and> RIP (ctx_of m2) = 0x400002
       \<and> m_context (cpu m2) \<noteq> m_context (cpu m1))
   \<and> (\<exists>m1 m2. step fault_machine = Some (0, m1) \<and> m_state (cpu m1) = Faulted
       \<and> RIP (ctx_of m1) = 0x2003FFFFF
       \<and> cpuThreadMain_loop 1 True EmuRunning m1 = Some m2
       \<and> m_state (cpu m2) = Faulted \<and> RIP (ctx_of m2) = 0x200400000
       \<and> m_context (cpu m2) \<noteq> m_context (cpu m1))
   \<and> (\<exists>m3. runLoop halt_machine = Some m3 \<and> RIP (ctx_of m3) = 0x400001)"
proof (intro conjI)
  show "\<exists>m1 m2. step halt_machine = Some (0, m1) \<and> m_state (cpu m1) = Halted
       \<and> RIP (ctx_of m1) = 0x400001
       \<and> cpuThreadMain_loop 1 True EmuRunning m1 = Some m2
       \<and> m_state (cpu m2) = Halted \<and> RIP (ctx_of m2) = 0x400002
       \<and> m_context (cpu m2) \<noteq> m_context (cpu m1)"
    by (simp add: halt_machine_def cpu_defs mem_defs scen_defs)
  show "\<exists>m1 m2. step fault_machine = Some (0, m1) \<and> m_state (cpu m1) = Faulted
       \<and> RIP (ctx_of m1) = 0x2003FFFFF
       \<and> cpuThreadMain_loop 1 True EmuRunning m1 = Some m2
       \<and> m_state (cpu m2) = Faulted \<and> RIP (ctx_of m2) = 0x200400000
       \<and> m_context (cpu m2) \<noteq> m_context (cpu m1)"
    by (simp add: fault_machine_def cpu_defs mem_defs scen_defs)
  show "\<exists>m3. runLoop halt_machine = Some m3 \<and> RIP (ctx_of m3) = 0x400001"
    apply (simp add: runLoop_def Let_def)
    apply (subst runLoop_while.simps)
    apply (simp add: halt_machine_def cpu_defs mem_defs scen_defs)
    done
qed

section \<open>Unimplemented system calls\<close>

lemma no_handler_999: "m_handlers WeaR_Syscalls_init 999 = None"
  by (simp add: WeaR_Syscalls_init_def registerDefaultHandlers_def registerHandler_def syscall_defs)

text \<open>Claim C5, as amended. For every system-call number without a registered handler,
  \<^verbatim>\<open>dispatch\<close> increments the unimplemented counter, writes 0 into RAX and appends one log line
  naming the number, on every invocation.\<close>

theorem dispatch_unimplemented:
  assumes "m_handlers s (get_reg ctx RAX) = None" and "length (GPR ctx) = 16"
  shows "\<exists>ctx' s'. dispatch ctx mem s = Some (None, ctx', mem, s')
           \<and> get_reg ctx' RAX = 0
           \<and> m_unimplementedCalls s' = m_unimplementedCalls s + 1
           \<and> sys_log (hle s') = sys_log (hle s) @ [LogUnimplemented (get_reg ctx RAX)]"
  using assms by (simp add: dispatch_def Let_def get_reg_def set_reg_def RAX_def sys_logmsg_def)

theorem dispatch_unimplemented_witness:
  "m_handlers WeaR_Syscalls_init (get_reg (set_reg WeaR_Context_reset RAX 999) RAX) = None
   \<and> length (GPR (set_reg WeaR_Context_reset RAX 999)) = 16
   \<and> (\<exists>ctx' s'. dispatch (set_reg WeaR_Context_reset RAX 999) \<lparr>m_memory = None\<rparr> WeaR_Syscalls_init
                    = Some (None, ctx', \<lparr>m_memory = None\<rparr>, s')
           \<and> get_reg ctx' RAX = 0
           \<and> m_unimplementedCalls s' = 1
           \<and> sys_log (hle s') = [LogUnimplemented 999])"
proof -
  have g: "get_reg (set_reg WeaR_Context_reset RAX 999) RAX = 999"
    by (simp add: get_reg_def set_reg_def RAX_def WeaR_Context_reset_def)
  have h1: "m_handlers WeaR_Syscalls_init (get_reg (set_reg WeaR_Context_reset RAX 999) RAX) = None"
    using no_handler_999 g by simp
  have h2: "length (GPR (set_reg WeaR_Context_reset RAX 999)) = 16"
    by (simp add: set_reg_def WeaR_Context_reset_def)
  have i: "m_unimplementedCalls WeaR_Syscalls_init = 0" "sys_log (hle WeaR_Syscalls_init) = []"
    by (simp_all add: WeaR_Syscalls_init_def registerDefaultHandlers_def registerHandler_def
        hle_state_init_def)
  from dispatch_unimplemented [OF h1 h2, of "\<lparr>m_memory = None\<rparr>"] h1 h2 g i
  show ?thesis by simp
qed

text \<open>The claim as stated ("logs the missing number at most once per distinct number") fails:
  two invocations of the unregistered number 999 leave two log lines for it.\<close>

theorem unimplemented_logged_on_every_call:
  "\<exists>c1 s1 c2 s2.
      dispatch (set_reg WeaR_Context_reset RAX 999) \<lparr>m_memory = None\<rparr> WeaR_Syscalls_init
        = Some (None, c1, \<lparr>m_memory = None\<rparr>, s1)
      \<and> dispatch (set_reg c1 RAX 999) \<lparr>m_memory = None\<rparr> s1 = Some (None, c2, \<lparr>m_memory = None\<rparr>, s2)
      \<and> count_list (sys_log (hle s2)) (LogUnimplemented 999) = 2"
  by (simp add: dispatch_def Let_def get_reg_def set_reg_def RAX_def sys_logmsg_def
      WeaR_Context_reset_def WeaR_Syscalls_init_def registerDefaultHandlers_def registerHandler_def
      syscall_defs hle_state_init_def)

section \<open>The internal BIOS never reaches the write system call\<close>

lemma load_bios:
  "load \<lparr>m_memory = Some (\<lambda>_. 0)\<rparr> ctx =
     Inr (0x400000, \<lparr>m_memory = Some bios_arena\<rparr>,
          fold (\<lambda>r c. set_reg c r 0)
            [RDX, RCX, RBX, RAX, RDI, RSI, R11, R10, R9, R8, R15, R14, R13, R12]
            (set_reg (set_reg (ctx\<lparr>RIP := 0x400000\<rparr>) RSP (STACK_TOP - 0x1000)) RBP
               (get_reg (set_reg (ctx\<lparr>RIP := 0x400000\<rparr>) RSP (STACK_TOP - 0x1000)) RSP)
             \<lparr>RFLAGS := 0x202\<rparr>))"
  by (simp add: load_def bios_arena_def bios_image_def bootMsg_def bios_head_def bios_loop_def
      ENTRY_POINT_def STRING_ADDR_def mem_defs Let_def)


lemma store_bytes_nth:
  "unat p + length bs < 2 ^ 64 \<Longrightarrow> unat p \<le> unat q \<Longrightarrow> unat q < unat p + length bs
   \<Longrightarrow> store_bytes a p bs q = bs ! (unat q - unat p)"
proof (induction bs arbitrary: a p)
  case Nil
  then show ?case by simp
next
  case (Cons b bs)
  have s: "unat (p + 1) = unat p + 1"
    using Cons.prems(1) by (intro unat_plus1[of p "length bs"]) simp
  show ?case
  proof (cases "q = p")
    case True
    have "store_bytes (a(p := b)) (p + 1) bs p = (a(p := b)) p"
      using Cons.prems(1) s by (intro store_bytes_other) auto
    then show ?thesis using True by simp
  next
    case False
    then have lt: "unat p < unat q"
      using Cons.prems(2) by (metis le_neq_implies_less unat_eq_nat_uint word_unat_eq_iff)
    have "store_bytes (a(p := b)) (p + 1) bs q = bs ! (unat q - unat (p + 1))"
      using Cons.prems s lt by (intro Cons.IH) auto
    moreover have "unat q - unat p = Suc (unat q - unat (p + 1))"
      using s lt by simp
    ultimately show ?thesis by simp
  qed
qed

lemma bios_arena_code:
  "unat a < 75 \<Longrightarrow> bios_arena a = bios_image ! unat a"
  using store_bytes_nth [of 0 bios_image a "store_bytes (\<lambda>_. 0) 0x200 (bootMsg @ [0])"]
  by (simp add: bios_arena_def bios_image_def)

lemma bios_step:
  assumes "bios_inv m"
  shows "\<exists>c m'. step m = Some (c, m') \<and> bios_inv m'"
proof -
  from assms have pc: "RIP (m_context (cpu m)) \<in> set bios_pcs"
    and f: "memory m = \<lparr>m_memory = Some bios_arena\<rparr>"
      "m_syscallHandler (cpu m) = Some dispatch"
      "m_handlers (sys m) 0 = None"
      "m_state (cpu m) \<noteq> Paused"
      "length (GPR (m_context (cpu m))) = 16"
      "GPR (m_context (cpu m)) ! 0 = 0"
      "set (sys_log (hle (sys m))) \<subseteq> {LogUnimplemented 0}"
    by (simp_all add: bios_inv_def ctx_of_def get_reg_def RAX_def)
  from pc have "RIP (m_context (cpu m)) \<in> set bios_pcs \<longrightarrow> ?thesis"
    unfolding bios_pcs_def
    apply (simp only: list.map list.set insert_iff empty_iff)
    apply (intro impI)
    apply (elim disjE FalseE)
    using f
    apply (simp_all add: bios_inv_def bios_pcs_def cpu_defs mem_defs bios_arena_code bios_image_def
      dispatch_def Let_def sys_logmsg_def reg_defs word_le_nat_alt word_less_nat_alt)
    done
  with pc show ?thesis by blast
qed

lemma bios_loop_inv:
  "bios_inv m \<Longrightarrow> \<exists>m'. cpuThreadMain_loop n True EmuRunning m = Some m' \<and> bios_inv m'"
proof (induction n arbitrary: m)
  case 0
  then show ?case by simp
next
  case (Suc n)
  from bios_step [OF Suc.prems] obtain c m1 where s: "step m = Some (c, m1)" and i: "bios_inv m1"
    by blast
  from Suc.IH [OF i] obtain m' where "cpuThreadMain_loop n True EmuRunning m1 = Some m'" "bios_inv m'"
    by blast
  moreover have "m_state (cpu m) \<noteq> Paused" using Suc.prems by (simp add: bios_inv_def)
  ultimately show ?case using s by simp
qed

lemma bios_boot_inv:
  "\<exists>c m0. bios_boot = Some (0x400000, c) \<and> machine c = Some m0 \<and> m_cpuRunning c
     \<and> m_emuState c = EmuRunning \<and> bios_inv m0"
  by (simp add: bios_boot_def initialize_def loadInternalBios_def run_def Let_def setState_def
      core_logmsg_def WeaR_EmulatorCore_init_def load_bios with_ctx_def ctx_of_def
      bios_inv_def bios_pcs_def WeaR_Cpu_init_def cpu_reset_def WeaR_Context_reset_def
      get_reg_def set_reg_def reg_defs STACK_TOP_def
      WeaR_Syscalls_init_def registerDefaultHandlers_def registerHandler_def syscall_defs
      hle_state_init_def)


text \<open>Claim C2. The claim says that after \<^verbatim>\<open>initialize\<close> and \<^verbatim>\<open>load_internal_bios\<close> (which
  returns \<open>0x400000\<close>) running the CPU makes the log contain the line
  \<^verbatim>\<open>WeaR-emu Internal BIOS v1.0\<close>. The entry point is as claimed, but the interpreter has no
  case for opcode \<open>0xC7\<close>: every \<^verbatim>\<open>48 C7 ..\<close> instruction of the payload is skipped byte by
  byte as unknown opcodes, RAX stays 0, and each SYSCALL dispatches the unregistered number
  0. After any number \<open>n\<close> of iterations of the CPU thread's loop the system-call log holds
  nothing but "Unimplemented syscall" lines for number 0; the boot message is never
  logged.\<close>

theorem internal_bios_never_logs_boot_message:
  "\<exists>c m0 m. bios_boot = Some (0x400000, c) \<and> machine c = Some m0
     \<and> cpuThreadMain_loop n (m_cpuRunning c) (m_emuState c) m0 = Some m
     \<and> set (sys_log (hle (sys m))) \<subseteq> {LogUnimplemented 0}
     \<and> LogFd 1 bootMsg \<notin> set (sys_log (hle (sys m)))"
proof -
  from bios_boot_inv obtain c m0 where b: "bios_boot = Some (0x400000, c)" "machine c = Some m0"
    "m_cpuRunning c" "m_emuState c = EmuRunning" "bios_inv m0"
    by blast
  from bios_loop_inv [OF b(5), of n] obtain m where
    l: "cpuThreadMain_loop n True EmuRunning m0 = Some m" and i: "bios_inv m"
    by blast
  from i have s: "set (sys_log (hle (sys m))) \<subseteq> {LogUnimplemented 0}"
    by (simp add: bios_inv_def)
  then have "LogFd 1 bootMsg \<notin> set (sys_log (hle (sys m)))" by auto
  with b l s show ?thesis by auto
qed

section \<open>The command-buffer parser\<close>

lemma read_payload_numeral [simp]:
  "read_payload mem bufferAddr offset i (numeral k) =
     (case read32 mem (bufferAddr + ucast ((offset + of_nat i) * 4)) of
        Inl e \<Rightarrow> Inl e
      | Inr v \<Rightarrow>
          (case read_payload mem bufferAddr offset (Suc i) (pred_numeral k) of
             Inl e \<Rightarrow> Inl e
           | Inr vs \<Rightarrow> Inr (v # vs)))"
  by (simp add: numeral_eq_Suc)

lemmas pm4_defs = isType3_def pkt_type_def pkt_count_def pkt_opcode_def payloadSize_def opcode_defs

lemmas gnm_defs =
  dispatch_packet_def handleDrawIndexAuto_def handleDrawIndex2_def handleDispatchDirect_def
  handleIndexType_def handleNumInstances_def handleSetContextReg_def handleSetShReg_def
  gnm_logmsg_def gnm_verbose_def push_def WeaR_DrawCmd_init_def queue_size_def

text \<open>Claim C9. Parsing the buffer \<open>[header(type 3, opcode 0x2D, count 1), 128, 0]\<close> with the
  tracked GPU state at its defaults and an empty render queue emits exactly one draw record
  with vertex count 128 and instance count 1, and the queue's size is then 1. The record's
  tag is \<^verbatim>\<open>DrawAuto\<close>, the non-indexed draw the parser emits, which the consumer handles in
  the same case as \<^verbatim>\<open>Draw\<close>. The header's count field is 1, so the payload is the two words
  that follow.\<close>

theorem draw_index_auto_emits_one_draw:
  assumes "read32 mem a = Inr 0xC0012D00"
    and "read32 mem (a + 4) = Inr 128"
    and "read32 mem (a + 8) = Inr 0"
    and "m_gpuState d = GpuState_reset"
    and "m_queue (renderQueue d) = []"
  shows "\<exists>d'. processCommandBuffer mem a 3 0 d = Some (None, d')
           \<and> m_queue (renderQueue d') =
               [WeaR_DrawCmd_init\<lparr>cmd_type := DrawAuto, vertexCount := 128, instanceCount := 1\<rparr>]
           \<and> queue_size (renderQueue d') = 1"
  apply (subst processCommandBuffer.simps)
  apply (simp add: assms pm4_defs)
  apply (subst processCommandBuffer.simps)
  apply (simp add: assms pm4_defs gnm_defs GpuState_reset_def)
  done












lemma draw_words:
  "read32 draw_mem 0x500000 = Inr 0xC0012D00"
  "read32 draw_mem 0x500004 = Inr 128"
  "read32 draw_mem 0x500008 = Inr 0"
  by (simp_all add: draw_mem_def mem_defs)











theorem draw_index_auto_emits_one_draw_witness:
  "read32 draw_mem 0x500000 = Inr 0xC0012D00
   \<and> read32 draw_mem (0x500000 + 4) = Inr 128
   \<and> read32 draw_mem (0x500000 + 8) = Inr 0
   \<and> m_gpuState WeaR_GnmDriver_init = GpuState_reset
   \<and> m_queue (renderQueue WeaR_GnmDriver_init) = []
   \<and> (\<exists>d'. processCommandBuffer draw_mem 0x500000 3 0 WeaR_GnmDriver_init = Some (None, d')
           \<and> m_queue (renderQueue d') =
               [WeaR_DrawCmd_init\<lparr>cmd_type := DrawAuto, vertexCount := 128, instanceCount := 1\<rparr>]
           \<and> queue_size (renderQueue d') = 1)"
proof -
  have h: "read32 draw_mem 0x500000 = Inr 0xC0012D00"
    "read32 draw_mem (0x500000 + 4) = Inr 128"
    "read32 draw_mem (0x500000 + 8) = Inr 0"
    "m_gpuState WeaR_GnmDriver_init = GpuState_reset"
    "m_queue (renderQueue WeaR_GnmDriver_init) = []"
    by (simp_all add: draw_words WeaR_GnmDriver_init_def WeaR_RenderQueue_init_def)
  from draw_index_auto_emits_one_draw [OF h] h show ?thesis by blast
qed

section \<open>Path resolution and opening files\<close>

lemmas vfs_defs =
  openFile_def resolvePath_def isPathSafe_def best_mount_def normalizePath_def vfs_print_def
  allocateFd_def open_mode_def lock_guard_def unlock_def
lemmas posix_defs =
  posix_host_def posix_normal_def posix_append_def posix_elems_def posix_exists_def posix_path_def

lemma lock_guard_free [simp]: "\<not> m_mutex v \<Longrightarrow> lock_guard v = Some (v\<lparr>m_mutex := True\<rparr>)"
  by (simp add: lock_guard_def)

lemma lock_guard_owned [simp]: "m_mutex v \<Longrightarrow> lock_guard v = None"
  by (simp add: lock_guard_def)

text \<open>Claim C8. The claim says that with \<^verbatim>\<open>/app0\<close> mounted on a host directory, opening
  \<^verbatim>\<open>/app0/../../etc/passwd\<close> with \<^verbatim>\<open>O_RDONLY\<close> returns ENOENT (or EACCES) and allocates no
  descriptor. In the code \<^verbatim>\<open>openFile\<close> takes the mutex of the file system and then calls
  \<^verbatim>\<open>resolvePath\<close>, which takes the same mutex again in the same thread: for no host, file
  system state, path, flags and mode does \<^verbatim>\<open>openFile\<close> return a value. Called with the mutex
  free, as \<^verbatim>\<open>fileExists\<close> calls it, \<^verbatim>\<open>resolvePath\<close> does reject the path of the claim with the
  empty path and leaves the open-file table and the next descriptor as they are.\<close>

theorem openFile_locks_its_own_mutex:
  "openFile fs v ps4Path fl mode = None
   \<and> (\<exists>v'. resolvePath (posix_host ex dir) (app0_vfs v) ''/app0/../../etc/passwd'' = Some ([], v')
          \<and> m_openFiles v' = m_openFiles v \<and> m_nextFd v' = m_nextFd v)
   \<and> (\<exists>v'. fileExists (posix_host ex dir) (app0_vfs v) ''/app0/../../etc/passwd'' = Some (False, v'))"
proof (intro conjI)
  show "openFile fs v ps4Path fl mode = None"
    by (simp add: openFile_def resolvePath_def lock_guard_def split: option.splits)
  show "\<exists>v'. resolvePath (posix_host ex dir) (app0_vfs v) ''/app0/../../etc/passwd'' = Some ([], v')
          \<and> m_openFiles v' = m_openFiles v \<and> m_nextFd v' = m_nextFd v"
    by (simp add: vfs_defs posix_defs app0_vfs_def Let_def)
  then show "\<exists>v'. fileExists (posix_host ex dir) (app0_vfs v) ''/app0/../../etc/passwd'' = Some (False, v')"
    by (auto simp: fileExists_def)
qed

lemma unlock_lock [simp]: "\<not> m_mutex v \<Longrightarrow> unlock (v\<lparr>m_mutex := True\<rparr>) = v"
  by (cases v) (simp add: unlock_def)

lemma unlock_print_lock [simp]:
  "\<not> m_mutex v \<Longrightarrow> unlock (vfs_print msg (v\<lparr>m_mutex := True\<rparr>)) = vfs_print msg v"
  by (cases v) (simp add: unlock_def vfs_print_def)

lemma isPathSafe_mutex [simp]: "isPathSafe fs (v\<lparr>m_mutex := b\<rparr>) path = isPathSafe fs v path"
  by (simp add: isPathSafe_def split: option.splits)

lemma path_within_any_iff:
  "path_within_any fs canonical mounts \<longleftrightarrow>
     (\<exists>before mount host after hostCanonical.
         mounts = before @ (mount, host) # after
       \<and> (\<forall>m\<in>set before. fs_canonical fs (snd m) \<noteq> None)
       \<and> fs_canonical fs host = Some hostCanonical
       \<and> prefix (path_elems fs hostCanonical) (path_elems fs canonical))"
proof (induction mounts)
  case Nil
  then show ?case by simp
next
  case (Cons m mounts)
  obtain mp h where m: "m = (mp, h)" by (cases m)
  show ?case
  proof (cases "fs_canonical fs h")
    case None
    then show ?thesis using m by (auto simp: Cons_eq_append_conv)
  next
    case (Some hc)
    show ?thesis
    proof (cases "prefix (path_elems fs hc) (path_elems fs canonical)")
      case True
      have "m # mounts = [] @ (mp, h) # mounts" using m by simp
      with True Some have "\<exists>before mount host after hostCanonical.
         m # mounts = before @ (mount, host) # after
       \<and> (\<forall>m\<in>set before. fs_canonical fs (snd m) \<noteq> None)
       \<and> fs_canonical fs host = Some hostCanonical
       \<and> prefix (path_elems fs hostCanonical) (path_elems fs canonical)"
        by (intro exI [of _ "[]"] exI [of _ mp] exI [of _ h] exI [of _ mounts] exI [of _ hc]) simp
      then show ?thesis using True Some m by simp
    next
      case False
      have l: "path_within_any fs canonical (m # mounts) = path_within_any fs canonical mounts"
        using False Some m by simp
      have r: "(\<exists>before mount host after hostCanonical.
         m # mounts = before @ (mount, host) # after
       \<and> (\<forall>m\<in>set before. fs_canonical fs (snd m) \<noteq> None)
       \<and> fs_canonical fs host = Some hostCanonical
       \<and> prefix (path_elems fs hostCanonical) (path_elems fs canonical))
       \<longleftrightarrow> (\<exists>before mount host after hostCanonical.
         mounts = before @ (mount, host) # after
       \<and> (\<forall>m\<in>set before. fs_canonical fs (snd m) \<noteq> None)
       \<and> fs_canonical fs host = Some hostCanonical
       \<and> prefix (path_elems fs hostCanonical) (path_elems fs canonical))" (is "?A \<longleftrightarrow> ?B")
      proof
        assume ?A
        then obtain before mount host after hostCanonical where
          e: "m # mounts = before @ (mount, host) # after"
          and a: "\<forall>m\<in>set before. fs_canonical fs (snd m) \<noteq> None"
          and c: "fs_canonical fs host = Some hostCanonical"
          and p: "prefix (path_elems fs hostCanonical) (path_elems fs canonical)"
          by blast
        show ?B
        proof (cases before)
          case Nil
          with e m have "host = h" by simp
          with c Some p False show ?thesis by simp
        next
          case (Cons b before')
          with e have "mounts = before' @ (mount, host) # after" by simp
          moreover from a Cons have "\<forall>m\<in>set before'. fs_canonical fs (snd m) \<noteq> None" by simp
          ultimately show ?thesis using c p by blast
        qed
      next
        assume ?B
        then obtain before mount host after hostCanonical where
          e: "mounts = before @ (mount, host) # after"
          and a: "\<forall>m\<in>set before. fs_canonical fs (snd m) \<noteq> None"
          and c: "fs_canonical fs host = Some hostCanonical"
          and p: "prefix (path_elems fs hostCanonical) (path_elems fs canonical)"
          by blast
        from e have "m # mounts = (m # before) @ (mount, host) # after" by simp
        moreover from a Some m have "\<forall>x\<in>set (m # before). fs_canonical fs (snd x) \<noteq> None" by simp
        ultimately show ?A using c p by blast
      qed
      from l r Cons.IH show ?thesis by simp
    qed
  qed
qed

lemma best_mount_fold:
  assumes "fold (\<lambda>(mountPoint, host) (bestMatch, bestHost).
             if prefix mountPoint normalized \<and> length mountPoint > length bestMatch
             then (mountPoint, host) else (bestMatch, bestHost)) mounts (b0, h0) = (b, h)"
  shows "length b0 \<le> length b
       \<and> ((b, h) = (b0, h0) \<or> ((b, h) \<in> set mounts \<and> prefix b normalized))
       \<and> (\<forall>(mountPoint, host)\<in>set mounts. prefix mountPoint normalized
             \<longrightarrow> length mountPoint \<le> length b)"
  using assms
proof (induction mounts arbitrary: b0 h0)
  case Nil
  then show ?case by simp
next
  case (Cons m mounts)
  obtain mp host where m: "m = (mp, host)" by (cases m)
  show ?case
  proof (cases "prefix mp normalized \<and> length mp > length b0")
    case True
    with Cons.prems m have f: "fold (\<lambda>(mountPoint, host) (bestMatch, bestHost).
             if prefix mountPoint normalized \<and> length mountPoint > length bestMatch
             then (mountPoint, host) else (bestMatch, bestHost)) mounts (mp, host) = (b, h)"
      by simp
    from Cons.IH [OF f] True m show ?thesis by auto
  next
    case False
    with Cons.prems m have f: "fold (\<lambda>(mountPoint, host) (bestMatch, bestHost).
             if prefix mountPoint normalized \<and> length mountPoint > length bestMatch
             then (mountPoint, host) else (bestMatch, bestHost)) mounts (b0, h0) = (b, h)"
      by simp
    from Cons.IH [OF f] False m show ?thesis by auto
  qed
qed

lemma best_mount_longest:
  assumes "best_mount mounts normalized = (bestMatch, bestHost)"
  shows "(bestMatch = [] \<longrightarrow>
            (\<forall>(mountPoint, host)\<in>set mounts. prefix mountPoint normalized \<longrightarrow> mountPoint = []))
       \<and> (bestMatch \<noteq> [] \<longrightarrow>
            (bestMatch, bestHost) \<in> set mounts \<and> prefix bestMatch normalized
          \<and> (\<forall>(mountPoint, host)\<in>set mounts. prefix mountPoint normalized
                \<longrightarrow> length mountPoint \<le> length bestMatch))"
  using best_mount_fold [OF assms [unfolded best_mount_def]] by auto

text \<open>Claim C6, as amended. With the mutex free, \<^verbatim>\<open>resolvePath\<close> returns, for every mount table
  and guest path. It selects the mount with the longest mount point that is a prefix of the
  normalised path, and returns the empty path if there is none. Otherwise \<open>resolved\<close> is the
  host root of that mount followed by the rest of the path, and it is accepted exactly if its
  canonical form lies inside the canonical host root of some mount of the table, the selected
  one or any other, provided the host roots of the mounts before that one in the table can be
  canonicalised. In every other case, and so whenever the canonical form escapes the host
  roots of all mounts, the empty path is returned.\<close>

theorem resolvePath_accepts_inside_any_mount:
  assumes "\<not> m_mutex v"
    and "best_mount (m_mountPoints v) (normalizePath ps4Path) = (bestMatch, bestHost)"
    and "relativePath = drop (length bestMatch) (normalizePath ps4Path)"
    and "resolved = path_append fs bestHost
           (if relativePath \<noteq> [] \<and> hd relativePath = CHR ''/'' then drop 1 relativePath
            else relativePath)"
  shows "resolvePath fs v ps4Path =
           Some (if bestMatch = [] then ([], v)
                 else if \<exists>canonical before mount host after hostCanonical.
                           fs_weakly_canonical fs resolved = Some canonical
                         \<and> m_mountPoints v = before @ (mount, host) # after
                         \<and> (\<forall>m\<in>set before. fs_canonical fs (snd m) \<noteq> None)
                         \<and> fs_canonical fs host = Some hostCanonical
                         \<and> prefix (path_elems fs hostCanonical) (path_elems fs canonical)
                 then (resolved, v)
                 else ([], vfs_print (VfsPathEscape ps4Path) v))
       \<and> (bestMatch = [] \<longrightarrow>
            (\<forall>(mountPoint, host)\<in>set (m_mountPoints v).
                prefix mountPoint (normalizePath ps4Path) \<longrightarrow> mountPoint = []))
       \<and> (bestMatch \<noteq> [] \<longrightarrow>
            (bestMatch, bestHost) \<in> set (m_mountPoints v)
          \<and> prefix bestMatch (normalizePath ps4Path)
          \<and> (\<forall>(mountPoint, host)\<in>set (m_mountPoints v).
                prefix mountPoint (normalizePath ps4Path)
                \<longrightarrow> length mountPoint \<le> length bestMatch))"
proof -
  have safe: "isPathSafe fs v resolved \<longleftrightarrow>
          (\<exists>canonical before mount host after hostCanonical.
                           fs_weakly_canonical fs resolved = Some canonical
                         \<and> m_mountPoints v = before @ (mount, host) # after
                         \<and> (\<forall>m\<in>set before. fs_canonical fs (snd m) \<noteq> None)
                         \<and> fs_canonical fs host = Some hostCanonical
                         \<and> prefix (path_elems fs hostCanonical) (path_elems fs canonical))"
    by (cases "fs_weakly_canonical fs resolved") (simp_all add: isPathSafe_def path_within_any_iff)
  have "resolvePath fs v ps4Path =
          Some (if bestMatch = [] then ([], v)
                else if isPathSafe fs v resolved then (resolved, v)
                else ([], vfs_print (VfsPathEscape ps4Path) v))"
    using assms by (simp add: resolvePath_def Let_def)
  with safe best_mount_longest [OF assms(2)] show ?thesis by simp
qed

theorem resolvePath_accepts_inside_any_mount_witness:
  "\<not> m_mutex two_mounts_vfs
   \<and> best_mount (m_mountPoints two_mounts_vfs) (normalizePath ''/app0/x'') = (''/app0'', ''/tmp/game'')
   \<and> drop (length ''/app0'') (normalizePath ''/app0/x'') = ''/x''
   \<and> path_append (posix_host (\<lambda>_. True) (\<lambda>_. True)) ''/tmp/game'' ''x'' = ''/tmp/game/x''
   \<and> resolvePath (posix_host (\<lambda>_. True) (\<lambda>_. True)) two_mounts_vfs ''/app0/x''
       = Some (''/tmp/game/x'', two_mounts_vfs)"
  using resolvePath_accepts_inside_any_mount
    [where v = two_mounts_vfs and ps4Path = "''/app0/x''" and bestMatch = "''/app0''"
       and bestHost = "''/tmp/game''" and relativePath = "''/x''" and resolved = "''/tmp/game/x''"
       and fs = "posix_host (\<lambda>_. True) (\<lambda>_. True)"]
  by (simp add: vfs_defs posix_defs two_mounts_vfs_def WeaR_VFS_init_def Let_def)

text \<open>The claim as stated ("never accepted merely because it lands inside some other mount's
  host root") fails: with \<^verbatim>\<open>/app0\<close> on \<^verbatim>\<open>/tmp/game\<close> and \<^verbatim>\<open>/data\<close> on \<^verbatim>\<open>/tmp/other\<close>, the guest
  path \<^verbatim>\<open>/app0/../other/x\<close> selects the mount \<^verbatim>\<open>/app0\<close>, its canonical form \<^verbatim>\<open>/tmp/other/x\<close> is
  outside \<^verbatim>\<open>/tmp/game\<close>, and it is accepted.\<close>

theorem other_mount_accepts_escape:
  "resolvePath (posix_host (\<lambda>_. True) (\<lambda>_. True)) two_mounts_vfs ''/app0/../other/x''
     = Some (''/tmp/game/../other/x'', two_mounts_vfs)
   \<and> fst (best_mount (m_mountPoints two_mounts_vfs) (normalizePath ''/app0/../other/x'')) = ''/app0''
   \<and> fs_weakly_canonical (posix_host (\<lambda>_. True) (\<lambda>_. True)) ''/tmp/game/../other/x''
       = Some ''/tmp/other/x''
   \<and> \<not> prefix (posix_elems ''/tmp/game'') (posix_elems ''/tmp/other/x'')"
  by (simp add: vfs_defs posix_defs two_mounts_vfs_def WeaR_VFS_init_def Let_def)

section \<open>The fallback of the package loader\<close>

lemmas pkg_defs = extractEboot_def extractEntry_def largest_valid_def mk_entry_def
  PKG_ENTRY_ID_EBOOT_def two_GiB_def

lemma fold_largest:
  assumes "case acc of None \<Rightarrow> m0 = 0 | Some a \<Rightarrow> valid_entry n a \<and> effective n a = m0 \<and> 0 < m0"
  shows "case fold (\<lambda>entry (largestEntry, maxSize).
             if unat (dataOffset entry) \<ge> n then (largestEntry, maxSize)
             else
               (let maxReadable = n - unat (dataOffset entry);
                    effectiveSize = min (unat (dataSize entry)) maxReadable
                in if effectiveSize > 0 \<and> effectiveSize > maxSize
                   then (Some entry, effectiveSize) else (largestEntry, maxSize)))
           es (acc, m0) of
           (None, m) \<Rightarrow> acc = None \<and> (\<forall>e\<in>set es. valid_entry n e \<longrightarrow> effective n e = 0)
         | (Some b, m) \<Rightarrow> (b \<in> set es \<or> acc = Some b) \<and> valid_entry n b \<and> effective n b = m
              \<and> 0 < m \<and> m0 \<le> m \<and> (\<forall>e\<in>set es. valid_entry n e \<longrightarrow> effective n e \<le> m)"
  using assms
proof (induction es arbitrary: acc m0)
  case Nil
  then show ?case by (cases acc) auto
next
  case (Cons e es)
  let ?step = "\<lambda>entry (largestEntry, maxSize).
             if unat (dataOffset entry) \<ge> n then (largestEntry, maxSize)
             else
               (let maxReadable = n - unat (dataOffset entry);
                    effectiveSize = min (unat (dataSize entry)) maxReadable
                in if effectiveSize > 0 \<and> effectiveSize > maxSize
                   then (Some entry, effectiveSize) else (largestEntry, maxSize))"
  show ?case
  proof (cases "valid_entry n e \<and> 0 < effective n e \<and> m0 < effective n e")
    case True
    then have st: "?step e (acc, m0) = (Some e, effective n e)"
      by (auto simp: valid_entry_def effective_def Let_def)
    have pre: "case Some e of None \<Rightarrow> effective n e = 0
                | Some a \<Rightarrow> valid_entry n a \<and> effective n a = effective n e \<and> 0 < effective n e"
      using True by simp
    from Cons.IH [OF pre] True show ?thesis
      unfolding fold_Cons comp_apply st
      by (auto split: option.splits prod.splits)
  next
    case False
    then have st: "?step e (acc, m0) = (acc, m0)"
      by (auto simp: valid_entry_def effective_def Let_def)
    have le: "valid_entry n e \<Longrightarrow> effective n e \<le> m0"
      using False by auto
    from Cons.IH [OF Cons.prems] le Cons.prems show ?thesis
      unfolding fold_Cons comp_apply st
      by (auto split: option.splits prod.splits intro: order_trans)
  qed
qed

lemma largest_valid_cases:
  "case largest_valid n es of
     (None, m) \<Rightarrow> (\<forall>e\<in>set es. valid_entry n e \<longrightarrow> effective n e = 0)
   | (Some b, m) \<Rightarrow> b \<in> set es \<and> valid_entry n b \<and> effective n b = m \<and> 0 < m
        \<and> (\<forall>e\<in>set es. valid_entry n e \<longrightarrow> effective n e \<le> m)"
  using fold_largest [where acc = None and ?m0.0 = 0 and n = n and es = es] unfolding largest_valid_def
  by (auto split: option.splits prod.splits)

lemma find_distinct_id:
  "e \<in> set es \<Longrightarrow> distinct (map entry_id es) \<Longrightarrow> find (\<lambda>x. entry_id x = entry_id e) es = Some e"
  by (induction es) (auto simp: image_iff)

lemma extract_valid_entry:
  assumes "m_loaded ld" "e \<in> set (m_entries ld)" "distinct (map entry_id (m_entries ld))"
    "valid_entry (length bytes) e" "0 < effective (length bytes) e"
  shows "extractEntry ld (Some bytes) (entry_id e) =
           (if effective (length bytes) e > two_GiB then Inl (SizeTooLarge (effective (length bytes) e))
            else Inr (take (effective (length bytes) e) (drop (unat (dataOffset e)) bytes)))"
  using assms find_distinct_id [of e "m_entries ld"]
  by (auto simp: extractEntry_def valid_entry_def effective_def Let_def min_def)


lemma fallback_general:
  assumes loaded: "m_loaded ld"
    and ids: "distinct (map entry_id (m_entries ld))"
    and no_eboot: "extractEntry ld (Some bytes) PKG_ENTRY_ID_EBOOT = Inl err"
  shows "if \<exists>e\<in>set (m_entries ld). unat (dataOffset e) < length bytes \<and> 0 < effective (length bytes) e
         then \<exists>e\<in>set (m_entries ld). unat (dataOffset e) < length bytes
                \<and> 0 < effective (length bytes) e
                \<and> (\<forall>e'\<in>set (m_entries ld). unat (dataOffset e') < length bytes
                      \<longrightarrow> effective (length bytes) e' \<le> effective (length bytes) e)
                \<and> extractEboot ld (Some bytes) =
                    (if two_GiB < effective (length bytes) e
                     then Inl (SizeTooLarge (effective (length bytes) e))
                     else Inr (take (effective (length bytes) e) (drop (unat (dataOffset e)) bytes)))
         else extractEboot ld (Some bytes) \<in> {Inl NoPkgOrNoEntries, Inl NoValidEntries}"
proof (cases "largest_valid (length bytes) (m_entries ld)")
  case (Pair r m)
  note lv = largest_valid_cases [where n = "length bytes" and es = "m_entries ld", unfolded Pair]
  show ?thesis
  proof (cases r)
    case None
    with lv have none: "\<forall>e\<in>set (m_entries ld). valid_entry (length bytes) e \<longrightarrow> effective (length bytes) e = 0"
      by simp
    then have neg: "\<not> (\<exists>e\<in>set (m_entries ld). unat (dataOffset e) < length bytes \<and> 0 < effective (length bytes) e)"
      by (auto simp: valid_entry_def)
    have res: "extractEboot ld (Some bytes) \<in> {Inl NoPkgOrNoEntries, Inl NoValidEntries}"
      using no_eboot loaded Pair None by (simp add: extractEboot_def)
    show ?thesis unfolding if_not_P [OF neg] by (rule res)
  next
    case (Some b)
    with lv have b: "b \<in> set (m_entries ld)" "valid_entry (length bytes) b"
      "0 < effective (length bytes) b"
      "\<forall>e\<in>set (m_entries ld). valid_entry (length bytes) e \<longrightarrow> effective (length bytes) e \<le> effective (length bytes) b"
      by auto
    have ne: "m_entries ld \<noteq> []" using b(1) by auto
    have "extractEboot ld (Some bytes) = extractEntry ld (Some bytes) (entry_id b)"
      using no_eboot loaded ne Pair Some by (simp add: extractEboot_def)
    also have "\<dots> = (if two_GiB < effective (length bytes) b
                     then Inl (SizeTooLarge (effective (length bytes) b))
                     else Inr (take (effective (length bytes) b) (drop (unat (dataOffset b)) bytes)))"
      by (rule extract_valid_entry [OF loaded b(1) ids b(2) b(3)])
    finally have ex: "extractEboot ld (Some bytes) =
                    (if two_GiB < effective (length bytes) b
                     then Inl (SizeTooLarge (effective (length bytes) b))
                     else Inr (take (effective (length bytes) b) (drop (unat (dataOffset b)) bytes)))" .
    have main: "\<exists>e\<in>set (m_entries ld). unat (dataOffset e) < length bytes
                \<and> 0 < effective (length bytes) e
                \<and> (\<forall>e'\<in>set (m_entries ld). unat (dataOffset e') < length bytes
                      \<longrightarrow> effective (length bytes) e' \<le> effective (length bytes) e)
                \<and> extractEboot ld (Some bytes) =
                    (if two_GiB < effective (length bytes) e
                     then Inl (SizeTooLarge (effective (length bytes) e))
                     else Inr (take (effective (length bytes) e) (drop (unat (dataOffset e)) bytes)))"
    proof (intro bexI [of _ b] conjI)
      show "unat (dataOffset b) < length bytes" using b(2) by (simp add: valid_entry_def)
      show "0 < effective (length bytes) b" by (rule b(3))
      show "\<forall>e'\<in>set (m_entries ld). unat (dataOffset e') < length bytes
                      \<longrightarrow> effective (length bytes) e' \<le> effective (length bytes) b"
        using b(4) by (simp add: valid_entry_def)
      show "extractEboot ld (Some bytes) =
                    (if two_GiB < effective (length bytes) b
                     then Inl (SizeTooLarge (effective (length bytes) b))
                     else Inr (take (effective (length bytes) b) (drop (unat (dataOffset b)) bytes)))"
        by (rule ex)
      show "b \<in> set (m_entries ld)" by (rule b(1))
    qed
    have pos: "\<exists>e\<in>set (m_entries ld). unat (dataOffset e) < length bytes \<and> 0 < effective (length bytes) e"
      using b by (auto simp: valid_entry_def)
    show ?thesis unfolding if_P [OF pos] by (rule main)
  qed
qed

lemma fallback_s2:
  assumes "unat o1 + 10 \<le> length bytes" "unat o2 + 4096 \<le> length bytes" "unat o3 + 128 \<le> length bytes"
  shows "extractEboot \<lparr>m_loaded = True,
                       m_entries = [mk_entry 0x1002 o1 10, mk_entry 0x1003 o2 4096, mk_entry 0x1004 o3 128]\<rparr>
           (Some bytes) = Inr (take 4096 (drop (unat o2) bytes))"
  using assms by (simp add: pkg_defs Let_def min_def) arith

text \<open>With pairwise distinct entry identifiers the fallback does what its comments say. For
  a loaded package whose entry \<open>0x1000\<close> cannot be extracted, \<^verbatim>\<open>extractEboot\<close> skips the entries
  whose offset is at or beyond the file size, takes \<open>effective = min(claimed size, file size -
  offset)\<close> for the others and returns the first \<open>effective\<close> bytes at the offset of an entry whose
  \<open>effective\<close> is positive and largest; it rejects if that size exceeds 2 GiB, or if there is no
  such entry. For the entries \<open>0x1002/0x1003/0x1004\<close> of sizes \<open>10/4096/128\<close> with their payloads
  inside the file, the result is the 4096 bytes of entry \<open>0x1003\<close>.\<close>

lemma fallback_with_distinct_ids:
  "(m_loaded ld \<and> distinct (map entry_id (m_entries ld))
      \<and> extractEntry ld (Some bytes) PKG_ENTRY_ID_EBOOT = Inl err \<longrightarrow>
    (if \<exists>e\<in>set (m_entries ld). unat (dataOffset e) < length bytes \<and> 0 < effective (length bytes) e
     then \<exists>e\<in>set (m_entries ld). unat (dataOffset e) < length bytes
            \<and> 0 < effective (length bytes) e
            \<and> (\<forall>e'\<in>set (m_entries ld). unat (dataOffset e') < length bytes
                  \<longrightarrow> effective (length bytes) e' \<le> effective (length bytes) e)
            \<and> extractEboot ld (Some bytes) =
                (if two_GiB < effective (length bytes) e
                 then Inl (SizeTooLarge (effective (length bytes) e))
                 else Inr (take (effective (length bytes) e) (drop (unat (dataOffset e)) bytes)))
     else extractEboot ld (Some bytes) \<in> {Inl NoPkgOrNoEntries, Inl NoValidEntries}))
   \<and> (unat o1 + 10 \<le> length pkg \<and> unat o2 + 4096 \<le> length pkg \<and> unat o3 + 128 \<le> length pkg \<longrightarrow>
      extractEboot \<lparr>m_loaded = True,
                     m_entries = [mk_entry 0x1002 o1 10, mk_entry 0x1003 o2 4096, mk_entry 0x1004 o3 128]\<rparr>
           (Some pkg) = Inr (take 4096 (drop (unat o2) pkg)))"
proof (intro conjI impI)
  assume "m_loaded ld \<and> distinct (map entry_id (m_entries ld))
      \<and> extractEntry ld (Some bytes) PKG_ENTRY_ID_EBOOT = Inl err"
  then show "if \<exists>e\<in>set (m_entries ld). unat (dataOffset e) < length bytes \<and> 0 < effective (length bytes) e
     then \<exists>e\<in>set (m_entries ld). unat (dataOffset e) < length bytes
            \<and> 0 < effective (length bytes) e
            \<and> (\<forall>e'\<in>set (m_entries ld). unat (dataOffset e') < length bytes
                  \<longrightarrow> effective (length bytes) e' \<le> effective (length bytes) e)
            \<and> extractEboot ld (Some bytes) =
                (if two_GiB < effective (length bytes) e
                 then Inl (SizeTooLarge (effective (length bytes) e))
                 else Inr (take (effective (length bytes) e) (drop (unat (dataOffset e)) bytes)))
     else extractEboot ld (Some bytes) \<in> {Inl NoPkgOrNoEntries, Inl NoValidEntries}"
    using fallback_general [where ld = ld and bytes = bytes and err = err] by blast
next
  assume "unat o1 + 10 \<le> length pkg \<and> unat o2 + 4096 \<le> length pkg \<and> unat o3 + 128 \<le> length pkg"
  then show "extractEboot \<lparr>m_loaded = True,
                     m_entries = [mk_entry 0x1002 o1 10, mk_entry 0x1003 o2 4096, mk_entry 0x1004 o3 128]\<rparr>
           (Some pkg) = Inr (take 4096 (drop (unat o2) pkg))"
    using fallback_s2 [where ?o1.0 = o1 and bytes = pkg and ?o2.0 = o2 and ?o3.0 = o3] by blast
qed



end
